theory Spec2Isabelle
  imports Complex_Main "HOL-Library.Word" "HOL-Library.AList"
begin

section \<open>The optimize-model request handler\<close>

text \<open>
  A shallow embedding of \<^verbatim>\<open>src/app/api/optimize-model/route.ts\<close>: the module-level Draco
  state, \<^verbatim>\<open>initializeDraco\<close> and the \<^verbatim>\<open>POST\<close> handler with its nested
  \<^verbatim>\<open>try\<close>/\<^verbatim>\<open>catch\<close> blocks. The handler is a chain of calls into libraries
  (glTF-Transform, draco3dgltf, sharp) and the file system. What those calls answer is
  not in the repository, so it is a parameter of the model (the record \<open>env\<close>); what the
  handler does with each answer is translated line by line. Every external call and every
  console line is appended to a trace, so that "this pass ran", "this failure was logged"
  and "nothing was written" are statements about the trace.
\<close>

subsection \<open>Data\<close>

type_synonym bytes = "8 word list"
type_synonym path = string

text \<open>A thrown value: an \<^verbatim>\<open>Error\<close> instance with its message and stack, or anything else.\<close>

datatype error = Error string string | NonError string

record texture =
  mimeType :: string
  image :: bytes

text \<open>
  The glTF-Transform \<^verbatim>\<open>Document\<close>, reduced to what the handler reads
  (\<^verbatim>\<open>listAnimations()\<close>, \<^verbatim>\<open>listTextures()\<close>) and to the vertex count of each mesh
  primitive; \<open>other\<close> stands for the rest of the entity graph.
\<close>

record document =
  animations :: "string list"
  textures :: "texture list"
  primitives :: "nat list"
  other :: bytes

text \<open>
  The options object of \<^verbatim>\<open>draco(...)\<close>; a key that the call leaves out is \<open>None\<close>
  and the library's default applies.
\<close>

record draco_options =
  quantizePosition :: "nat option"
  quantizeNormal :: "nat option"
  quantizeTexcoord :: "nat option"

text \<open>
  The transforms handed to \<^verbatim>\<open>document.transform\<close>. \<open>Weld\<close> carries its tolerance; the
  source writes the literal \<^verbatim>\<open>0.0001\<close>, kept here as the rational it denotes.
\<close>

datatype transform = Dedup | Prune | Resample | Weld rat | Draco draco_options

text \<open>The options of \<^verbatim>\<open>compressTexture\<close>: target format and the resize box.\<close>

record texture_options =
  targetFormat :: string
  resize :: "nat \<times> nat"

datatype severity = Log | Warn | Err

text \<open>
  The console lines of the source. The source's texts are Korean; each constructor names
  one line (its source line in the comment) and carries the values the line prints.
\<close>

datatype msg =
    DracoInitOk                 \<comment> \<open>56\<close>
  | DracoInitFailed error       \<comment> \<open>59\<close>
  | OriginalSize nat            \<comment> \<open>87\<close>
  | SizeAfter string nat        \<comment> \<open>98\<close>
  | SizeCheckFailed string error \<comment> \<open>107\<close>
  | DracoDepsRegistered         \<comment> \<open>129\<close>
  | DracoDepsFailed error       \<comment> \<open>131\<close>
  | StageDone string            \<comment> \<open>144, 150, 158, 180, 202, 218, 253, 262\<close>
  | StageFailed string error    \<comment> \<open>161, 183, 225, 256, 265\<close>
  | TexturesFound nat           \<comment> \<open>169\<close>
  | NoTextures                  \<comment> \<open>186\<close>
  | WeldUnavailable             \<comment> \<open>205\<close>
  | SkipMeshOptimization        \<comment> \<open>226\<close>
  | NoDracoModule               \<comment> \<open>270\<close>
  | TransformError error        \<comment> \<open>274\<close>
  | MinimalDone                 \<comment> \<open>284\<close>
  | MinimalFailed error         \<comment> \<open>294\<close>
  | Summary nat nat string      \<comment> \<open>305-314\<close>
  | SaveError error             \<comment> \<open>356\<close>

text \<open>
  One entry of the trace: a call that leaves the handler, with \<open>None\<close> for a call that
  returned and \<open>Some e\<close> for one that threw \<open>e\<close>, or a console line.
\<close>

datatype event =
    CreateDecoderModule "error option"
  | CreateEncoderModule "error option"
  | RegisterDependencies "error option"
  | WriteFile path "error option"
  | IoRead path "error option"
  | IoWrite path "error option"
  | Transform transform "error option"
  | CompressTexture texture "error option"
  | ImportWeld "error option"
  | Console severity msg

text \<open>
  JSON bodies, as \<^verbatim>\<open>NextResponse.json\<close> serialises them: an object is a list of
  key/value pairs, a key whose value is \<^verbatim>\<open>undefined\<close> is dropped, and a number that
  is not finite becomes \<^verbatim>\<open>null\<close>. The Korean message templates are the constructors of
  \<open>phrase\<close>.
\<close>

datatype phrase =
    NoFile                       \<comment> \<open>70\<close>
  | OptimizationDone string      \<comment> \<open>317, with the level\<close>
  | MinimalOptimizationDone string \<comment> \<open>287, with the level\<close>
  | MinimalNote                  \<comment> \<open>291\<close>
  | WeldNote                     \<comment> \<open>346\<close>
  | PreQuantizationNote          \<comment> \<open>348\<close>
  | SimplifyDisabledNote         \<comment> \<open>349\<close>
  | DefaultError                 \<comment> \<open>353\<close>
  | NotUploaded                  \<comment> \<open>second handler, 39\<close>
  | ProcessingFailed             \<comment> \<open>second handler, 107\<close>

datatype json =
    JNull
  | JBool bool
  | JNumber rat
  | JString string
  | JPhrase phrase
  | JObject "(string \<times> json) list"

record response =
  status :: nat
  body :: json

text \<open>The request: what \<^verbatim>\<open>req.formData()\<close> gives, a thrown error or the form fields.\<close>

record upload =
  name :: string
  content :: bytes

datatype form_value = FileValue upload | StringValue string

record request =
  formData :: "error + (string \<rightharpoonup> form_value)"

subsection \<open>The environment\<close>

text \<open>
  The answers of the libraries and of the operating system during one request. A call
  that can answer differently when it is made again (a transform, the encoder, the
  texture encoder) also receives the trace so far.

  Modelled from the spec: the texture backend, which is not in the repository. Its
  contract in section 4.4 of the spec is
  \<^verbatim>\<open>recompress(imageBytes, targetFormat, maxDimensions) -> imageBytes | error\<close>, so
  \<open>compressTexture\<close> answers with the texture it has rewritten, or with the error it
  throws, and a texture it throws on is as it was.
\<close>

record env =
  tmpdir :: string
  uuidv4 :: string
  createDecoderModule :: "error + nat"
  createEncoderModule :: "error + nat"
  registerDependencies :: "error option"
  writeFile :: "path \<Rightarrow> bytes \<Rightarrow> error option"
  decode :: "bytes \<Rightarrow> error + document"
  encode :: "event list \<Rightarrow> document \<Rightarrow> error + bytes"
  apply_transform :: "event list \<Rightarrow> transform \<Rightarrow> document \<Rightarrow> document \<times> error option"
  compressTexture :: "event list \<Rightarrow> texture \<Rightarrow> texture_options \<Rightarrow> error + texture"
  import_weld :: "error option"

text \<open>
  What outlives a request: the three module-level variables of lines 35-37 and the
  files of the temporary directory, an association list from paths to contents.
\<close>

record server =
  decoderModule :: "nat option"
  encoderModule :: "nat option"
  dracoInitialized :: bool
  disk :: "(path \<times> bytes) list"

text \<open>
  The variables of \<^verbatim>\<open>POST\<close> that are live once the document is read: the files, the
  trace, the document (mutated in place by the transforms), the level tag, and the
  constants the closures capture.
\<close>

record state =
  files :: "(path \<times> bytes) list"
  trace :: "event list"
  document :: document
  optimizationLevel :: string
  tempDir :: string
  fileId :: string
  inputPath :: path
  outputPath :: path
  originalSize :: nat
  useDraco :: bool

record outcome =
  response :: response
  server_after :: server
  events :: "event list"

subsection \<open>Helpers\<close>

definition emit :: "event \<Rightarrow> state \<Rightarrow> state" where
  "emit e st = st\<lparr>trace := trace st @ [e]\<rparr>"

text \<open>\<^verbatim>\<open>path.join(dir, file)\<close>, without the normalisation of dot segments.\<close>

definition path_join :: "string \<Rightarrow> string \<Rightarrow> path" where
  "path_join dir f = dir @ ''/'' @ f"

text \<open>\<^verbatim>\<open>stat(p).size\<close>: throws when there is no such file.\<close>

definition stat_size :: "(path \<times> bytes) list \<Rightarrow> path \<Rightarrow> error + nat" where
  "stat_size fs p = (case map_of fs p of None \<Rightarrow> Inl (Error ''ENOENT'' p) | Some b \<Rightarrow> Inr (length b))"

text \<open>\<^verbatim>\<open>io.read(p)\<close>: reads the file and decodes it.\<close>

definition io_read :: "env \<Rightarrow> (path \<times> bytes) list \<Rightarrow> path \<Rightarrow> error + document" where
  "io_read env fs p = (case map_of fs p of None \<Rightarrow> Inl (Error ''ENOENT'' p) | Some b \<Rightarrow> decode env b)"

text \<open>\<^verbatim>\<open>io.write(p, d)\<close>: encodes the document and writes the file.\<close>

definition io_write :: "env \<Rightarrow> path \<Rightarrow> document \<Rightarrow> state \<Rightarrow> error option \<times> state" where
  "io_write env p d st =
     (case encode env (trace st) d of
        Inl e \<Rightarrow> (Some e, emit (IoWrite p (Some e)) st)
      | Inr b \<Rightarrow> (None, emit (IoWrite p None) (st\<lparr>files := AList.update p b (files st)\<rparr>)))"

text \<open>
  \<^verbatim>\<open>d.transform(t1, ..., tn)\<close>: the transforms run in order on the document, which each
  of them mutates; the first one that throws ends the call, and the document stays as
  that transform left it.
\<close>

fun run_transforms ::
  "env \<Rightarrow> transform list \<Rightarrow> document \<Rightarrow> event list \<Rightarrow> error option \<times> document \<times> event list" where
  "run_transforms env [] d tr = (None, d, tr)"
| "run_transforms env (t # ts) d tr =
     (case apply_transform env tr t d of
        (d', None) \<Rightarrow> run_transforms env ts d' (tr @ [Transform t None])
      | (d', Some e) \<Rightarrow> (Some e, d', tr @ [Transform t (Some e)]))"

definition document_transform :: "env \<Rightarrow> transform list \<Rightarrow> state \<Rightarrow> error option \<times> state" where
  "document_transform env ts st =
     (case run_transforms env ts (document st) (trace st) of
        (r, d', tr') \<Rightarrow> (r, st\<lparr>document := d', trace := tr'\<rparr>))"

subsection \<open>\<^verbatim>\<open>initializeDraco\<close> (lines 39-62)\<close>

text \<open>
  Returns the pair (decoder, encoder) that the caller destructures, the module variables
  as the call leaves them, and the events of the call. When the encoder cannot be created
  the decoder stays assigned in the module variable, but the function returns two nulls
  and \<open>dracoInitialized\<close> stays false.
\<close>

definition initializeDraco ::
  "env \<Rightarrow> server \<Rightarrow> (nat option \<times> nat option) \<times> server \<times> event list" where
  "initializeDraco env srv =
     (if dracoInitialized srv then ((decoderModule srv, encoderModule srv), srv, [])
      else case createDecoderModule env of
        Inl e \<Rightarrow>
          ((None, None), srv,
           [CreateDecoderModule (Some e), Console Err (DracoInitFailed e)])
      | Inr dm \<Rightarrow>
          (case createEncoderModule env of
             Inl e \<Rightarrow>
               ((None, None), srv\<lparr>decoderModule := Some dm\<rparr>,
                [CreateDecoderModule None, CreateEncoderModule (Some e),
                 Console Err (DracoInitFailed e)])
           | Inr em \<Rightarrow>
               ((Some dm, Some em),
                srv\<lparr>decoderModule := Some dm, encoderModule := Some em,
                     dracoInitialized := True\<rparr>,
                [CreateDecoderModule None, CreateEncoderModule None,
                 Console Log DracoInitOk])))"

subsection \<open>\<^verbatim>\<open>checkFileSize\<close> (lines 90-110)\<close>

text \<open>
  Writes the current document to a temporary file and logs its size. Its own
  \<^verbatim>\<open>try\<close>/\<^verbatim>\<open>catch\<close> swallows every failure; no caller uses the returned size.
\<close>

definition checkFileSize :: "env \<Rightarrow> string \<Rightarrow> state \<Rightarrow> state" where
  "checkFileSize env stage st =
     (let tempPath = path_join (tempDir st) (fileId st @ ''-temp-'' @ stage @ ''.glb'')
      in case io_write env tempPath (document st) st of
           (Some e, st1) \<Rightarrow> emit (Console Warn (SizeCheckFailed stage e)) st1
         | (None, st1) \<Rightarrow>
             (case stat_size (files st1) tempPath of
                Inl e \<Rightarrow> emit (Console Warn (SizeCheckFailed stage e)) st1
              | Inr currentSize \<Rightarrow> emit (Console Log (SizeAfter stage currentSize)) st1))"

text \<open>
  The three statements that follow every successful step: assign the level tag, log the
  step as done, measure the file size.
\<close>

definition reached :: "env \<Rightarrow> string \<Rightarrow> string \<Rightarrow> state \<Rightarrow> state" where
  "reached env level stage st =
     checkFileSize env stage
       (emit (Console Log (StageDone stage)) (st\<lparr>optimizationLevel := level\<rparr>))"

subsection \<open>The stages of the inner \<^verbatim>\<open>try\<close> block (lines 141-272)\<close>

text \<open>Stage 3, lines 154-163: resample, only when the document lists an animation.\<close>

definition stage_resample :: "env \<Rightarrow> state \<Rightarrow> state" where
  "stage_resample env st =
     (if 0 < length (animations (document st)) then
        (case document_transform env [Resample] st of
           (None, st1) \<Rightarrow> reached env ''advanced'' ''Resample'' st1
         | (Some e, st1) \<Rightarrow> emit (Console Warn (StageFailed ''Resample'' e)) st1)
      else st)"

text \<open>
  Stage 4, lines 166-187: one \<^verbatim>\<open>try\<close> around the whole \<^verbatim>\<open>for\<close> loop over the
  textures. \<^verbatim>\<open>compressTexture\<close> rewrites the texture it is given; \<open>processed\<close> holds
  the textures already rewritten, so that the document's list is \<open>processed\<close>, the
  current texture and the ones still to come. The handler has no statement that touches a
  texture after a throw.
\<close>

definition texture_opts :: texture_options where
  "texture_opts = \<lparr>targetFormat = ''webp'', resize = (1024, 1024)\<rparr>"

fun compress_textures ::
  "env \<Rightarrow> texture list \<Rightarrow> texture list \<Rightarrow> state \<Rightarrow> error option \<times> state" where
  "compress_textures env processed [] st = (None, st)"
| "compress_textures env processed (t # ts) st =
     (case compressTexture env (trace st) t texture_opts of
        Inr t' \<Rightarrow>
          compress_textures env (processed @ [t']) ts
            (emit (CompressTexture t None)
               (st\<lparr>document := (document st)\<lparr>textures := processed @ t' # ts\<rparr>\<rparr>))
      | Inl e \<Rightarrow> (Some e, emit (CompressTexture t (Some e)) st))"

definition stage_texture :: "env \<Rightarrow> state \<Rightarrow> state" where
  "stage_texture env st =
     (if 0 < length (textures (document st)) then
        (let ts = textures (document st);
             st1 = emit (Console Log (TexturesFound (length ts))) st
         in case compress_textures env [] ts st1 of
              (None, st2) \<Rightarrow> reached env ''texture-compressed'' ''TextureCompress'' st2
            | (Some e, st2) \<Rightarrow> emit (Console Warn (StageFailed ''TextureCompress'' e)) st2)
      else emit (Console Log NoTextures) st)"

text \<open>
  Stage 5, lines 190-236: weld, and on any failure of the import or of the transform the
  quantization fallback of lines 208-227. The outermost \<^verbatim>\<open>catch\<close> of lines 229-236
  has nothing left to catch, since the inner handlers only log.
\<close>

definition weld_options :: rat where
  "weld_options = 1 / 10000"

definition quantize_options :: draco_options where
  "quantize_options =
     \<lparr>quantizePosition = Some 12, quantizeNormal = Some 10, quantizeTexcoord = Some 10\<rparr>"

definition quantize_fallback :: "env \<Rightarrow> state \<Rightarrow> state" where
  "quantize_fallback env st =
     (case document_transform env [Draco quantize_options]
             (emit (Console Warn WeldUnavailable) st) of
        (None, st1) \<Rightarrow> reached env ''pre-quantized'' ''Pre-quantization'' st1
      | (Some e, st1) \<Rightarrow>
          emit (Console Log SkipMeshOptimization)
            (emit (Console Warn (StageFailed ''Pre-quantization'' e)) st1))"

definition stage_weld :: "env \<Rightarrow> state \<Rightarrow> state" where
  "stage_weld env st =
     (case import_weld env of
        Some e \<Rightarrow> quantize_fallback env (emit (ImportWeld (Some e)) st)
      | None \<Rightarrow>
          (case document_transform env [Weld weld_options] (emit (ImportWeld None) st) of
             (None, st1) \<Rightarrow> reached env ''welded'' ''Weld'' st1
           | (Some e, st1) \<Rightarrow> quantize_fallback env st1))"

text \<open>
  Stage 6, lines 239-272: Draco with the library's defaults, then one retry with
  \<^verbatim>\<open>{ quantizePosition: 12 }\<close>; skipped when \<open>useDraco\<close> is false. Lines 245-248 only
  attach the silent logger to the transform.
\<close>

definition draco_default_options :: draco_options where
  "draco_default_options =
     \<lparr>quantizePosition = None, quantizeNormal = None, quantizeTexcoord = None\<rparr>"

definition draco_retry_options :: draco_options where
  "draco_retry_options =
     \<lparr>quantizePosition = Some 12, quantizeNormal = None, quantizeTexcoord = None\<rparr>"

definition stage_draco :: "env \<Rightarrow> state \<Rightarrow> state" where
  "stage_draco env st =
     (if useDraco st then
        (case document_transform env [Draco draco_default_options] st of
           (None, st1) \<Rightarrow> reached env ''draco'' ''Draco'' st1
         | (Some e, st1) \<Rightarrow>
             (case document_transform env [Draco draco_retry_options]
                     (emit (Console Warn (StageFailed ''Draco'' e)) st1) of
                (None, st2) \<Rightarrow> reached env ''draco-simple'' ''Draco Simple'' st2
              | (Some e2, st2) \<Rightarrow> emit (Console Warn (StageFailed ''Draco Simple'' e2)) st2))
      else emit (Console Log NoDracoModule) st)"

text \<open>
  The inner \<^verbatim>\<open>try\<close> block. Only dedup and prune (stages 1 and 2, lines 141-151)
  have no handler of their own: a throw of either leaves the block. Stages 3 to 6 catch
  what they throw.
\<close>

definition early_stages :: "env \<Rightarrow> state \<Rightarrow> error option \<times> state" where
  "early_stages env st =
     (case document_transform env [Dedup] st of
        (Some e, st1) \<Rightarrow> (Some e, st1)
      | (None, st1) \<Rightarrow>
          (case document_transform env [Prune] (reached env ''basic'' ''Dedup'' st1) of
             (Some e, st2) \<Rightarrow> (Some e, st2)
           | (None, st2) \<Rightarrow> (None, reached env ''intermediate'' ''Prune'' st2)))"

definition late_stages :: "env \<Rightarrow> state \<Rightarrow> state" where
  "late_stages env st =
     stage_draco env (stage_weld env (stage_texture env (stage_resample env st)))"

definition try_block :: "env \<Rightarrow> state \<Rightarrow> error option \<times> state" where
  "try_block env st =
     (case early_stages env st of
        (Some e, st1) \<Rightarrow> (Some e, st1)
      | (None, st1) \<Rightarrow> (None, late_stages env st1))"

subsection \<open>The handler of the inner \<^verbatim>\<open>try\<close> (lines 273-296)\<close>

text \<open>
  Sets the level to \<^verbatim>\<open>"error"\<close>, reads the input again into a second document and
  runs dedup and prune on it in one \<^verbatim>\<open>transform\<close> call. When that and the write
  succeed the handler returns its own response (\<open>Some\<close>); otherwise it logs and falls
  through (\<open>None\<close>) to the code after the \<^verbatim>\<open>try\<close>, with the first document.
\<close>

definition minimal_response :: "state \<Rightarrow> response" where
  "minimal_response st =
     \<lparr>status = 200,
      body = JObject
        [(''message'', JPhrase (MinimalOptimizationDone (optimizationLevel st))),
         (''optimizedPath'', JString (outputPath st)),
         (''dracoEnabled'', JBool False),
         (''optimizationLevel'', JString (optimizationLevel st)),
         (''note'', JPhrase MinimalNote)]\<rparr>"

definition catch_block :: "env \<Rightarrow> error \<Rightarrow> state \<Rightarrow> response option \<times> state" where
  "catch_block env transformError st =
     (let st0 = (emit (Console Err (TransformError transformError)) st)
                  \<lparr>optimizationLevel := ''error''\<rparr>
      in case io_read env (files st0) (inputPath st0) of
           Inl e \<Rightarrow>
             (None, emit (Console Err (MinimalFailed e)) (emit (IoRead (inputPath st0) (Some e)) st0))
         | Inr document2 \<Rightarrow>
             (case run_transforms env [Dedup, Prune] document2
                     (trace st0 @ [IoRead (inputPath st0) None]) of
                (Some e, d2, tr) \<Rightarrow>
                  (None, emit (Console Err (MinimalFailed e)) (st0\<lparr>trace := tr\<rparr>))
              | (None, d2, tr) \<Rightarrow>
                  (case io_write env (outputPath st0) d2 (st0\<lparr>trace := tr\<rparr>) of
                     (Some e, st1) \<Rightarrow> (None, emit (Console Err (MinimalFailed e)) st1)
                   | (None, st1) \<Rightarrow>
                       (let st2 = emit (Console Log MinimalDone)
                                    (st1\<lparr>optimizationLevel := ''minimal''\<rparr>)
                        in (Some (minimal_response st2), st2)))))"

definition try_catch :: "env \<Rightarrow> state \<Rightarrow> response option \<times> state" where
  "try_catch env st =
     (case try_block env st of
        (None, st1) \<Rightarrow> (None, st1)
      | (Some e, st1) \<Rightarrow> catch_block env e st1)"

subsection \<open>The final write and the report (lines 298-350)\<close>

definition total_reduction :: "nat \<Rightarrow> nat \<Rightarrow> json" where
  "total_reduction original final =
     (if original = 0 then JNull
      else JNumber ((of_nat original - of_nat final) / of_nat original * 100))"

definition report :: "state \<Rightarrow> nat \<Rightarrow> json" where
  "report st finalSize =
     (let level = optimizationLevel st in
      JObject
        [(''message'', JPhrase (OptimizationDone level)),
         (''optimizedModelUrl'', JString (''/api/download?fileId='' @ fileId st)),
         (''dracoEnabled'', JBool (level \<in> set [''draco'', ''draco-simple''])),
         (''optimizationLevel'', JString level),
         (''fileSize'', JObject
            [(''original'', JNumber (of_nat (originalSize st))),
             (''optimized'', JNumber (of_nat finalSize)),
             (''reduction'', total_reduction (originalSize st) finalSize),
             (''savedBytes'', JNumber (of_int (int (originalSize st) - int finalSize)))]),
         (''applied'', JObject
            [(''dedup'', JBool (level \<noteq> ''none'')),
             (''prune'', JBool (level \<in> set [''intermediate'', ''advanced'', ''draco'',
                                  ''draco-simple'', ''minimal'', ''welded'', ''pre-quantized''])),
             (''resample'', JBool (level \<in> set [''advanced'', ''draco'', ''draco-simple''])),
             (''simplify'', JBool (level \<in> set [''welded'', ''pre-quantized''])),
             (''draco'', JBool (level \<in> set [''draco'', ''draco-simple'']))]),
         (''note'', JPhrase
            (if level = ''welded'' then WeldNote
             else if level = ''pre-quantized'' then PreQuantizationNote
             else SimplifyDisabledNote))])"

definition finish :: "env \<Rightarrow> state \<Rightarrow> (error + response) \<times> state" where
  "finish env st =
     (case io_write env (outputPath st) (document st) st of
        (Some e, st1) \<Rightarrow> (Inl e, st1)
      | (None, st1) \<Rightarrow>
          (case stat_size (files st1) (outputPath st1) of
             Inl e \<Rightarrow> (Inl e, st1)
           | Inr finalSize \<Rightarrow>
               (Inr \<lparr>status = 200, body = report st1 finalSize\<rparr>,
                emit (Console Log (Summary (originalSize st1) finalSize (optimizationLevel st1)))
                  st1)))"

subsection \<open>\<^verbatim>\<open>POST\<close> (lines 64-365)\<close>

text \<open>The outer \<^verbatim>\<open>catch\<close>, lines 351-364: log, answer 500 with the message.\<close>

definition error_response :: "error \<Rightarrow> response" where
  "error_response e =
     \<lparr>status = 500,
      body = JObject
        (case e of
           Error m stack \<Rightarrow> [(''error'', JString m), (''details'', JString stack)]
         | NonError v \<Rightarrow> [(''error'', JPhrase DefaultError)])\<rparr>"

definition failed :: "error \<Rightarrow> server \<Rightarrow> event list \<Rightarrow> outcome" where
  "failed e srv tr =
     \<lparr>response = error_response e, server_after = srv,
      events = tr @ [Console Err (SaveError e)]\<rparr>"

definition no_file :: "server \<Rightarrow> outcome" where
  "no_file srv =
     \<lparr>response = \<lparr>status = 400, body = JObject [(''error'', JPhrase NoFile)]\<rparr>,
      server_after = srv, events = []\<rparr>"

text \<open>
  Lines 66-138, up to the read of the document: either the handler has answered already
  (\<open>Inl\<close>), or the pipeline starts in the state \<open>Inr\<close> gives. A field \<^verbatim>\<open>file\<close> that is
  a non-empty string passes the test of line 69 and fails at \<^verbatim>\<open>file.arrayBuffer()\<close>.
\<close>

definition register_draco :: "env \<Rightarrow> bool \<Rightarrow> event list" where
  "register_draco env use =
     (if use then
        (case registerDependencies env of
           None \<Rightarrow> [RegisterDependencies None, Console Log DracoDepsRegistered]
         | Some e \<Rightarrow> [RegisterDependencies (Some e), Console Warn (DracoDepsFailed e)])
      else [])"

definition prepare :: "env \<Rightarrow> server \<Rightarrow> request \<Rightarrow> outcome + (server \<times> state)" where
  "prepare env srv req =
     (case formData req of
        Inl e \<Rightarrow> Inl (failed e srv [])
      | Inr fd \<Rightarrow>
          (case fd ''file'' of
             None \<Rightarrow> Inl (no_file srv)
           | Some (StringValue s) \<Rightarrow>
               (if s = [] then Inl (no_file srv)
                else Inl (failed (Error ''file.arrayBuffer is not a function'' ''TypeError'') srv []))
           | Some (FileValue f) \<Rightarrow>
               (let buffer = content f;
                    fileName = (if name f = [] then ''model.glb'' else name f);
                    inPath = path_join (tmpdir env) (uuidv4 env @ ''-'' @ fileName);
                    outPath = path_join (tmpdir env) (uuidv4 env @ ''-optimized.glb'')
                in case writeFile env inPath buffer of
                     Some e \<Rightarrow> Inl (failed e srv [WriteFile inPath (Some e)])
                   | None \<Rightarrow>
                       (let srv1 = srv\<lparr>disk := AList.update inPath buffer (disk srv)\<rparr>
                        in case stat_size (disk srv1) inPath of
                             Inl e \<Rightarrow> Inl (failed e srv1 [WriteFile inPath None])
                           | Inr origSize \<Rightarrow>
                               (case initializeDraco env srv1 of
                                  ((decoder, encoder), srv2, evs) \<Rightarrow>
                                    (let use = (decoder \<noteq> None \<and> encoder \<noteq> None);
                                         tr = [WriteFile inPath None,
                                               Console Log (OriginalSize origSize)]
                                              @ evs @ register_draco env use
                                     in case io_read env (disk srv2) inPath of
                                          Inl e \<Rightarrow>
                                            Inl (failed e srv2 (tr @ [IoRead inPath (Some e)]))
                                        | Inr d \<Rightarrow>
                                            Inr (srv2,
                                                 \<lparr>files = disk srv2,
                                                  trace = tr @ [IoRead inPath None],
                                                  document = d,
                                                  optimizationLevel = ''none'',
                                                  tempDir = tmpdir env,
                                                  fileId = uuidv4 env,
                                                  inputPath = inPath,
                                                  outputPath = outPath,
                                                  originalSize = origSize,
                                                  useDraco = use\<rparr>)))))))"

text \<open>
  The end of a request: the response goes out, or the outer \<^verbatim>\<open>catch\<close> answers for
  what was thrown. What stays behind is the server with the files as the request left
  them.
\<close>

definition answer :: "server \<Rightarrow> (error + response) \<times> state \<Rightarrow> outcome" where
  "answer srv r =
     (case r of
        (Inr resp, st) \<Rightarrow>
          \<lparr>response = resp, server_after = srv\<lparr>disk := files st\<rparr>, events = trace st\<rparr>
      | (Inl e, st) \<Rightarrow> failed e (srv\<lparr>disk := files st\<rparr>) (trace st))"

definition POST :: "env \<Rightarrow> server \<Rightarrow> request \<Rightarrow> outcome" where
  "POST env srv req =
     (case prepare env srv req of
        Inl out \<Rightarrow> out
      | Inr (srv1, st) \<Rightarrow>
          (case try_catch env st of
             (Some resp, st1) \<Rightarrow> answer srv1 (Inr resp, st1)
           | (None, st1) \<Rightarrow> answer srv1 (finish env st1)))"

section \<open>The second handler\<close>

text \<open>
  A shallow embedding of the other \<^verbatim>\<open>POST\<close> of the repository, the route file
  \<^verbatim>\<open>src/unnamed/part_001\<close> (a file of 110 lines; the numbers below are its own). It has
  one \<^verbatim>\<open>try\<close> block and one \<^verbatim>\<open>catch\<close>: everything that throws, a pass included, is
  answered with status 500. Its libraries and its trace are kept apart from the first
  handler's.
\<close>

text \<open>A transform of line 68-78: one of the library's, or \<^verbatim>\<open>textureCompress\<close>.\<close>

datatype transform_001 = Library transform | TextureCompress texture_options

datatype event_001 =
    Created_001 string "error option"        \<comment> \<open>30, 31: the decoder and the encoder module\<close>
  | Registered_001 "error option"            \<comment> \<open>29\<close>
  | LoggedPath_001 path                      \<comment> \<open>53\<close>
  | Wrote_001 path "error option"            \<comment> \<open>55\<close>
  | Read_001 path "error option"             \<comment> \<open>58\<close>
  | Ran_001 transform_001 "error option"     \<comment> \<open>68-78\<close>
  | WroteBinary_001 "error option"           \<comment> \<open>81\<close>
  | Unlinked_001 path "error option"         \<comment> \<open>85, 101\<close>
  | LoggedError_001 error                    \<comment> \<open>97\<close>
  | LoggedCleanupError_001 error             \<comment> \<open>103\<close>

datatype body_001 = Json_001 json | Binary_001 bytes "(string \<times> string) list"

record response_001 =
  status_001 :: nat
  body_001 :: body_001

text \<open>
  The answers of the libraries and of the operating system to this handler; \<open>now_001\<close>
  is \<^verbatim>\<open>Date.now()\<close> as it prints, and \<open>read_001\<close> is \<^verbatim>\<open>io.read\<close> on the bytes of the
  file, whose result the handler tests for being there (line 61).
\<close>

record env_001 =
  tmpdir_001 :: string
  now_001 :: string
  createDecoderModule_001 :: "error + nat"
  createEncoderModule_001 :: "error + nat"
  registerDependencies_001 :: "error option"
  writeFile_001 :: "path \<Rightarrow> bytes \<Rightarrow> error option"
  read_001 :: "bytes \<Rightarrow> error + document option"
  transform_001 :: "event_001 list \<Rightarrow> transform_001 \<Rightarrow> document \<Rightarrow> document \<times> error option"
  writeBinary_001 :: "document \<Rightarrow> error + bytes"
  unlink_001 :: "path \<Rightarrow> error option"

record outcome_001 =
  response_001 :: response_001
  files_001 :: "(path \<times> bytes) list"
  events_001 :: "event_001 list"

text \<open>Lines 96-110, the \<^verbatim>\<open>catch\<close>: log, remove the temporary file if there is one, answer 500.\<close>

definition catch_001 ::
  "env_001 \<Rightarrow> path option \<Rightarrow> (path \<times> bytes) list \<Rightarrow> event_001 list \<Rightarrow> error \<Rightarrow> outcome_001" where
  "catch_001 env tempFilePath fs tr e =
     (let resp = \<lparr>status_001 = 500, body_001 = Json_001 (JObject [(''error'', JPhrase ProcessingFailed)])\<rparr>;
          tr1 = tr @ [LoggedError_001 e]
      in case tempFilePath of
           None \<Rightarrow> \<lparr>response_001 = resp, files_001 = fs, events_001 = tr1\<rparr>
         | Some p \<Rightarrow>
             (case unlink_001 env p of
                None \<Rightarrow>
                  \<lparr>response_001 = resp, files_001 = AList.delete p fs,
                   events_001 = tr1 @ [Unlinked_001 p None]\<rparr>
              | Some ce \<Rightarrow>
                  \<lparr>response_001 = resp, files_001 = fs,
                   events_001 = tr1 @ [Unlinked_001 p (Some ce), LoggedCleanupError_001 ce]\<rparr>))"

text \<open>
  Lines 68-78: one \<^verbatim>\<open>document.transform\<close> call with the five transforms, which run in
  this order until one throws.
\<close>

definition transforms_001 :: "transform_001 list" where
  "transforms_001 =
     [Library Resample, Library Prune, Library Dedup, Library (Draco draco_default_options),
      TextureCompress texture_opts]"

fun run_001 ::
  "env_001 \<Rightarrow> transform_001 list \<Rightarrow> document \<Rightarrow> event_001 list
     \<Rightarrow> error option \<times> document \<times> event_001 list" where
  "run_001 env [] d tr = (None, d, tr)"
| "run_001 env (t # ts) d tr =
     (case transform_001 env tr t d of
        (d', None) \<Rightarrow> run_001 env ts d' (tr @ [Ran_001 t None])
      | (d', Some e) \<Rightarrow> (Some e, d', tr @ [Ran_001 t (Some e)]))"

text \<open>
  Lines 29-65, up to the document: either the handler has answered (\<open>Inl\<close>), or the
  transforms start with the path of the temporary file, the document, the files and the
  trace. The test of line 37 lets a non-empty string through, which fails at
  \<^verbatim>\<open>file.arrayBuffer()\<close>.
\<close>

definition no_file_001 :: "(path \<times> bytes) list \<Rightarrow> event_001 list \<Rightarrow> outcome_001" where
  "no_file_001 fs tr =
     \<lparr>response_001 = \<lparr>status_001 = 400, body_001 = Json_001 (JObject [(''error'', JPhrase NotUploaded)])\<rparr>,
      files_001 = fs, events_001 = tr\<rparr>"

definition prepare_001 ::
  "env_001 \<Rightarrow> (path \<times> bytes) list \<Rightarrow> request
     \<Rightarrow> outcome_001 + (path \<times> document \<times> (path \<times> bytes) list \<times> event_001 list)" where
  "prepare_001 env fs req =
     (case createDecoderModule_001 env of
        Inl e \<Rightarrow> Inl (catch_001 env None fs [Created_001 ''decoder'' (Some e)] e)
      | Inr dm \<Rightarrow>
     (case createEncoderModule_001 env of
        Inl e \<Rightarrow>
          Inl (catch_001 env None fs
                 [Created_001 ''decoder'' None, Created_001 ''encoder'' (Some e)] e)
      | Inr em \<Rightarrow>
     (case registerDependencies_001 env of
        Some e \<Rightarrow>
          Inl (catch_001 env None fs
                 [Created_001 ''decoder'' None, Created_001 ''encoder'' None,
                  Registered_001 (Some e)] e)
      | None \<Rightarrow>
     (let tr0 = [Created_001 ''decoder'' None, Created_001 ''encoder'' None, Registered_001 None]
      in case formData req of
        Inl e \<Rightarrow> Inl (catch_001 env None fs tr0 e)
      | Inr fd \<Rightarrow>
     (case fd ''model'' of
        None \<Rightarrow> Inl (no_file_001 fs tr0)
      | Some (StringValue s) \<Rightarrow>
          (if s = [] then Inl (no_file_001 fs tr0)
           else Inl (catch_001 env None fs tr0
                       (Error ''file.arrayBuffer is not a function'' ''TypeError'')))
      | Some (FileValue f) \<Rightarrow>
     (let tempFilePath = path_join (tmpdir_001 env) (now_001 env @ ''-'' @ name f);
          tr1 = tr0 @ [LoggedPath_001 tempFilePath]
      in case writeFile_001 env tempFilePath (content f) of
        Some e \<Rightarrow>
          Inl (catch_001 env (Some tempFilePath) fs
                 (tr1 @ [Wrote_001 tempFilePath (Some e)]) e)
      | None \<Rightarrow>
     (let fs1 = AList.update tempFilePath (content f) fs;
          tr2 = tr1 @ [Wrote_001 tempFilePath None]
      in case read_001 env (content f) of
        Inl e \<Rightarrow>
          Inl (catch_001 env (Some tempFilePath) fs1
                 (tr2 @ [Read_001 tempFilePath (Some e)]) e)
      | Inr None \<Rightarrow>
          Inl (catch_001 env (Some tempFilePath) fs1
                 (tr2 @ [Read_001 tempFilePath None])
                 (Error ''glTF document could not be loaded'' ''at POST''))
      | Inr (Some d) \<Rightarrow>
          Inr (tempFilePath, d, fs1, tr2 @ [Read_001 tempFilePath None]))))))))"

text \<open>
  Lines 68-95: the transforms, the encoding, the removal of the temporary file and the
  binary response. Each of them is inside the \<^verbatim>\<open>try\<close>.
\<close>

definition POST_001 :: "env_001 \<Rightarrow> (path \<times> bytes) list \<Rightarrow> request \<Rightarrow> outcome_001" where
  "POST_001 env fs req =
     (case prepare_001 env fs req of
        Inl out \<Rightarrow> out
      | Inr (tempFilePath, d, fs1, tr) \<Rightarrow>
          (case run_001 env transforms_001 d tr of
             (Some e, d', tr') \<Rightarrow> catch_001 env (Some tempFilePath) fs1 tr' e
           | (None, d', tr') \<Rightarrow>
               (case writeBinary_001 env d' of
                  Inl e \<Rightarrow>
                    catch_001 env (Some tempFilePath) fs1 (tr' @ [WroteBinary_001 (Some e)]) e
                | Inr optimizedBuffer \<Rightarrow>
                    (case unlink_001 env tempFilePath of
                       Some e \<Rightarrow>
                         catch_001 env (Some tempFilePath) fs1
                           (tr' @ [WroteBinary_001 None, Unlinked_001 tempFilePath (Some e)]) e
                     | None \<Rightarrow>
                         \<lparr>response_001 =
                            \<lparr>status_001 = 200,
                             body_001 = Binary_001 optimizedBuffer
                               [(''Content-Type'', ''model/gltf-binary''),
                                (''Content-Disposition'',
                                 ''attachment; filename='' @ [CHR 0x22] @ ''optimized-'' @
                                 (case formData req of
                                    Inr fd \<Rightarrow>
                                      (case fd ''model'' of
                                         Some (FileValue f) \<Rightarrow> name f
                                       | _ \<Rightarrow> [])
                                  | Inl e \<Rightarrow> [])
                                 @ [CHR 0x22])]\<rparr>,
                          files_001 = AList.delete tempFilePath fs1,
                          events_001 = tr' @ [WroteBinary_001 None,
                                              Unlinked_001 tempFilePath None]\<rparr>))))"

section \<open>Vocabulary for the claims\<close>

subsection \<open>Reading traces and responses\<close>

text \<open>A pass: a transform run on a document, or one texture handed to the encoder.\<close>

fun is_pass :: "event \<Rightarrow> bool" where
  "is_pass (Transform t r) = True"
| "is_pass (CompressTexture t r) = True"
| "is_pass _ = False"

definition passes :: "event list \<Rightarrow> event list" where
  "passes tr = filter is_pass tr"

text \<open>The events a step added to the trace.\<close>

definition new_events :: "state \<Rightarrow> state \<Rightarrow> event list" where
  "new_events st st' = drop (length (trace st)) (trace st')"

text \<open>
  A failed call is an event that carries the thrown value; it is logged when the next
  event is a line of \<^verbatim>\<open>console.warn\<close> or \<^verbatim>\<open>console.error\<close>.
\<close>

fun failed_call :: "event \<Rightarrow> bool" where
  "failed_call (CreateDecoderModule r) = (r \<noteq> None)"
| "failed_call (CreateEncoderModule r) = (r \<noteq> None)"
| "failed_call (RegisterDependencies r) = (r \<noteq> None)"
| "failed_call (WriteFile p r) = (r \<noteq> None)"
| "failed_call (IoRead p r) = (r \<noteq> None)"
| "failed_call (IoWrite p r) = (r \<noteq> None)"
| "failed_call (Transform t r) = (r \<noteq> None)"
| "failed_call (CompressTexture t r) = (r \<noteq> None)"
| "failed_call (ImportWeld r) = (r \<noteq> None)"
| "failed_call (Console sev m) = False"

fun complaint :: "event \<Rightarrow> bool" where
  "complaint (Console Warn m) = True"
| "complaint (Console Err m) = True"
| "complaint _ = False"

fun failures_logged :: "event list \<Rightarrow> bool" where
  "failures_logged [] = True"
| "failures_logged [e] = (\<not> failed_call e)"
| "failures_logged (e # e' # es) = ((failed_call e \<longrightarrow> complaint e') \<and> failures_logged (e' # es))"

fun json_get :: "json \<Rightarrow> string \<Rightarrow> json option" where
  "json_get (JObject kvs) k = map_of kvs k"
| "json_get _ k = None"

text \<open>The constants of a request, which no step changes.\<close>

definition constants :: "state \<Rightarrow> string \<times> string \<times> path \<times> path \<times> nat \<times> bool" where
  "constants st = (tempDir st, fileId st, inputPath st, outputPath st, originalSize st, useDraco st)"

text \<open>The two events of \<open>checkFileSize\<close>: the write, and the line that reports it.\<close>

definition size_check :: "event list \<Rightarrow> bool" where
  "size_check evs \<longleftrightarrow>
     (\<exists>p r sev stage n e. evs = [IoWrite p r, Console sev (SizeAfter stage n)] \<and> r = None \<or>
        evs = [IoWrite p r, Console Warn (SizeCheckFailed stage e)])"

text \<open>
  What the weld attempt, import and transform together, leaves behind: the document and
  the thrown value when there is one.
\<close>

definition weld_attempt :: "env \<Rightarrow> state \<Rightarrow> document \<times> error option" where
  "weld_attempt env st =
     (case import_weld env of
        Some e \<Rightarrow> (document st, Some e)
      | None \<Rightarrow> apply_transform env (trace st @ [ImportWeld None]) (Weld weld_options) (document st))"


text \<open>
  Modelled from the spec: "the highest stage successfully reached". A transform stage is
  reached when its transform returned; the texture stage is reached when textures were
  handed to the encoder and none of the calls threw. The stages are ranked in the order of
  the pipeline, and the tag of each is the string the source assigns after it.
\<close>

definition succeeded :: "event list \<Rightarrow> transform \<Rightarrow> bool" where
  "succeeded tr t = (Transform t None \<in> set tr)"

fun is_compress :: "event \<Rightarrow> bool" where
  "is_compress (CompressTexture t r) = True"
| "is_compress _ = False"

fun is_compress_failure :: "event \<Rightarrow> bool" where
  "is_compress_failure (CompressTexture t (Some e)) = True"
| "is_compress_failure _ = False"

definition textures_done :: "event list \<Rightarrow> bool" where
  "textures_done tr = (list_ex is_compress tr \<and> \<not> list_ex is_compress_failure tr)"

definition highest_stage_reached :: "event list \<Rightarrow> string" where
  "highest_stage_reached tr =
     (if succeeded tr (Draco draco_retry_options) then ''draco-simple''
      else if succeeded tr (Draco draco_default_options) then ''draco''
      else if succeeded tr (Draco quantize_options) then ''pre-quantized''
      else if succeeded tr (Weld weld_options) then ''welded''
      else if textures_done tr then ''texture-compressed''
      else if succeeded tr Resample then ''advanced''
      else if succeeded tr Prune then ''intermediate''
      else if succeeded tr Dedup then ''basic''
      else ''none'')"

text \<open>The stage, 1 to 6, that a pass belongs to; 0 for an event that is no pass.\<close>

fun stage_of :: "event \<Rightarrow> nat" where
  "stage_of (Transform Dedup r) = 1"
| "stage_of (Transform Prune r) = 2"
| "stage_of (Transform Resample r) = 3"
| "stage_of (CompressTexture t r) = 4"
| "stage_of (Transform (Weld tol) r) = 5"
| "stage_of (Transform (Draco opts) r) = (if opts = quantize_options then 5 else 6)"
| "stage_of _ = 0"

text \<open>The passes of stages 3 to 6: everything but dedup and prune.\<close>

fun late_pass :: "event \<Rightarrow> bool" where
  "late_pass (Transform Dedup r) = False"
| "late_pass (Transform Prune r) = False"
| "late_pass (Transform t r) = True"
| "late_pass (CompressTexture t r) = True"
| "late_pass _ = False"

text \<open>
  The first event of a stage that has no condition of its own to skip it silently: the
  texture stage logs what it found, the weld stage imports \<^verbatim>\<open>weld\<close>, the Draco stage
  runs the default transform or logs that there is no module.
\<close>

fun texture_stage_entered :: "event \<Rightarrow> bool" where
  "texture_stage_entered (Console Log (TexturesFound n)) = True"
| "texture_stage_entered (Console Log NoTextures) = True"
| "texture_stage_entered _ = False"

fun weld_stage_entered :: "event \<Rightarrow> bool" where
  "weld_stage_entered (ImportWeld r) = True"
| "weld_stage_entered _ = False"

fun draco_stage_entered :: "event \<Rightarrow> bool" where
  "draco_stage_entered (Transform (Draco opts) r) = (opts = draco_default_options)"
| "draco_stage_entered (Console Log NoDracoModule) = True"
| "draco_stage_entered _ = False"

fun is_resample :: "event \<Rightarrow> bool" where
  "is_resample (Transform Resample r) = True"
| "is_resample _ = False"

text \<open>A state with the level tag blanked: what is left is everything but the tag.\<close>

definition erase_level :: "state \<Rightarrow> state" where
  "erase_level st = st\<lparr>optimizationLevel := []\<rparr>"

text \<open>
  The position bits a Draco call works with: the option when the call gives one, the
  library's default otherwise. The default is a constant of glTF-Transform, a parameter
  here.
\<close>

definition position_bits :: "nat \<Rightarrow> draco_options \<Rightarrow> nat" where
  "position_bits library_default opts =
     (case quantizePosition opts of None \<Rightarrow> library_default | Some b \<Rightarrow> b)"

subsection \<open>Concrete requests and environments\<close>

definition sample_document :: document where
  "sample_document =
     \<lparr>animations = [''walk''],
      textures = [\<lparr>mimeType = ''image/png'', image = [1, 2, 3]\<rparr>,
                  \<lparr>mimeType = ''image/png'', image = [4, 5, 6]\<rparr>],
      primitives = [24],
      other = []\<rparr>"

definition sample_upload :: upload where
  "sample_upload = \<lparr>name = ''a.glb'', content = [0x67, 0x6C, 0x54, 0x46]\<rparr>"

definition sample_form :: "string \<rightharpoonup> form_value" where
  "sample_form = [''file'' \<mapsto> FileValue sample_upload]"

definition sample_request :: request where
  "sample_request = \<lparr>formData = Inr sample_form\<rparr>"

definition empty_request :: request where
  "empty_request = \<lparr>formData = Inr Map.empty\<rparr>"

definition fresh_server :: server where
  "fresh_server =
     \<lparr>decoderModule = None, encoderModule = None, dracoInitialized = False, disk = []\<rparr>"

definition boom :: error where
  "boom = Error ''boom'' ''at transform''"

text \<open>An environment in which every call returns and changes nothing.\<close>

definition quiet_env :: env where
  "quiet_env =
     \<lparr>tmpdir = ''/tmp'', uuidv4 = ''id'',
      createDecoderModule = Inr 1, createEncoderModule = Inr 2,
      registerDependencies = None,
      writeFile = (\<lambda>p b. None),
      decode = (\<lambda>b. Inr sample_document),
      encode = (\<lambda>h d. Inr [0x67, 0x6C]),
      apply_transform = (\<lambda>h t d. (d, None)),
      compressTexture = (\<lambda>h t opts. Inr t),
      import_weld = None\<rparr>"

text \<open>The decoder rejects the upload.\<close>

definition corrupt_env :: env where
  "corrupt_env = quiet_env\<lparr>decode := (\<lambda>b. Inl (Error ''Invalid glb header'' ''at read''))\<rparr>"

text \<open>The state in which the conditional stages start: after the read, dedup and prune.\<close>

definition sample_state :: state where
  "sample_state =
     \<lparr>files = [(''/tmp/id-a.glb'', [0x67, 0x6C, 0x54, 0x46])],
      trace = [],
      document = sample_document,
      optimizationLevel = ''intermediate'',
      tempDir = ''/tmp'', fileId = ''id'',
      inputPath = ''/tmp/id-a.glb'', outputPath = ''/tmp/id-optimized.glb'',
      originalSize = 4, useDraco = True\<rparr>"

text \<open>The texture encoder rejects the first texture and would convert any other.\<close>

definition picky_encoder_env :: env where
  "picky_encoder_env =
     quiet_env\<lparr>compressTexture :=
       (\<lambda>h t opts. if image t = [1, 2, 3] then Inl boom
                    else Inr (t\<lparr>mimeType := ''image/webp''\<rparr>))\<rparr>"

text \<open>The installed library exports no \<^verbatim>\<open>weld\<close>.\<close>

definition weldless_env :: env where
  "weldless_env = quiet_env\<lparr>import_weld := Some (Error ''weld is not a function'' ''TypeError'')\<rparr>"

text \<open>Draco with the default options throws; any other transform returns.\<close>

definition draco_default_fails_env :: env where
  "draco_default_fails_env =
     quiet_env\<lparr>apply_transform :=
       (\<lambda>h t d. (d, if t = Draco draco_default_options then Some boom else None))\<rparr>"

text \<open>Dedup throws, whenever it is called.\<close>

definition dedup_fails_env :: env where
  "dedup_fails_env =
     quiet_env\<lparr>apply_transform := (\<lambda>h t d. (d, if t = Dedup then Some boom else None))\<rparr>"

text \<open>Dedup throws and nothing can be encoded.\<close>

definition nothing_works_env :: env where
  "nothing_works_env =
     dedup_fails_env\<lparr>encode := (\<lambda>h d. Inl (Error ''ENOSPC'' ''at write''))\<rparr>"

text \<open>Prune throws, whenever it is called.\<close>

definition prune_fails_env :: env where
  "prune_fails_env =
     quiet_env\<lparr>apply_transform := (\<lambda>h t d. (d, if t = Prune then Some boom else None))\<rparr>"

text \<open>
  Textures compress; there is no weld, the quantization throws, and the Draco decoder
  cannot be created.
\<close>

definition textures_only_env :: env where
  "textures_only_env =
     quiet_env\<lparr>createDecoderModule := Inl boom,
               import_weld := Some boom,
               apply_transform :=
                 (\<lambda>h t d. (d, if t = Draco quantize_options then Some boom else None))\<rparr>"

text \<open>The first dedup throws; the second one, after the input is read again, returns.\<close>

definition transient_env :: env where
  "transient_env =
     quiet_env\<lparr>apply_transform :=
       (\<lambda>h t d. (d, if t = Dedup \<and> \<not> list_ex is_pass h then Some boom else None))\<rparr>"

text \<open>
  The sample request in the quiet environment: the server and the state when the
  pipeline starts, and the state after dedup and prune.
\<close>

definition prepared_server :: server where
  "prepared_server =
     \<lparr>decoderModule = Some 1, encoderModule = Some 2, dracoInitialized = True,
      disk = [(''/tmp/id-a.glb'', [0x67, 0x6C, 0x54, 0x46])]\<rparr>"

definition prepared_trace :: "event list" where
  "prepared_trace =
     [WriteFile ''/tmp/id-a.glb'' None, Console Log (OriginalSize 4),
      CreateDecoderModule None, CreateEncoderModule None, Console Log DracoInitOk,
      RegisterDependencies None, Console Log DracoDepsRegistered,
      IoRead ''/tmp/id-a.glb'' None]"

definition prepared_state :: state where
  "prepared_state =
     sample_state\<lparr>trace := prepared_trace, optimizationLevel := ''none''\<rparr>"

definition pruned_state :: state where
  "pruned_state =
     sample_state
       \<lparr>files := [(''/tmp/id-a.glb'', [0x67, 0x6C, 0x54, 0x46]),
                  (''/tmp/id-temp-Dedup.glb'', [0x67, 0x6C]),
                  (''/tmp/id-temp-Prune.glb'', [0x67, 0x6C])],
        trace := prepared_trace @
          [Transform Dedup None, Console Log (StageDone ''Dedup''),
           IoWrite ''/tmp/id-temp-Dedup.glb'' None, Console Log (SizeAfter ''Dedup'' 2),
           Transform Prune None, Console Log (StageDone ''Prune''),
           IoWrite ''/tmp/id-temp-Prune.glb'' None, Console Log (SizeAfter ''Prune'' 2)]\<rparr>"


text \<open>The state after a dedup that threw \<open>boom\<close> on the sample request.\<close>

definition dedup_failed_state :: state where
  "dedup_failed_state =
     prepared_state\<lparr>trace := prepared_trace @ [Transform Dedup (Some boom)]\<rparr>"

text \<open>A document without animations, and the sample request decoded to it.\<close>

definition static_env :: env where
  "static_env = quiet_env\<lparr>decode := (\<lambda>b. Inr (sample_document\<lparr>animations := []\<rparr>))\<rparr>"

definition static_prepared_state :: state where
  "static_prepared_state = prepared_state\<lparr>document := sample_document\<lparr>animations := []\<rparr>\<rparr>"

definition static_pruned_state :: state where
  "static_pruned_state = pruned_state\<lparr>document := sample_document\<lparr>animations := []\<rparr>\<rparr>"

text \<open>
  No weld, and a Draco transform that merges the vertices it finds equal, two thirds of
  them staying; a document whose one primitive has 36 vertices.
\<close>

definition merging_env :: env where
  "merging_env =
     weldless_env\<lparr>apply_transform :=
       (\<lambda>h t d. (if t = Draco quantize_options
                   then d\<lparr>primitives := map (\<lambda>n. n * 2 div 3) (primitives d)\<rparr> else d, None))\<rparr>"

definition cube_state :: state where
  "cube_state = sample_state\<lparr>document := sample_document\<lparr>primitives := [36]\<rparr>\<rparr>"

text \<open>The second handler: a request, and libraries of which only dedup throws.\<close>

definition model_request :: request where
  "model_request = \<lparr>formData = Inr [''model'' \<mapsto> FileValue sample_upload]\<rparr>"

definition dedup_fails_env_001 :: env_001 where
  "dedup_fails_env_001 =
     \<lparr>tmpdir_001 = ''/tmp'', now_001 = ''1700000000000'',
      createDecoderModule_001 = Inr 1, createEncoderModule_001 = Inr 2,
      registerDependencies_001 = None,
      writeFile_001 = (\<lambda>p b. None),
      read_001 = (\<lambda>b. Inr (Some sample_document)),
      transform_001 = (\<lambda>h t d. (d, if t = Library Dedup then Some boom else None)),
      writeBinary_001 = (\<lambda>d. Inr [0x67, 0x6C]),
      unlink_001 = (\<lambda>p. None)\<rparr>"

definition prepared_trace_001 :: "event_001 list" where
  "prepared_trace_001 =
     [Created_001 ''decoder'' None, Created_001 ''encoder'' None, Registered_001 None,
      LoggedPath_001 ''/tmp/1700000000000-a.glb'',
      Wrote_001 ''/tmp/1700000000000-a.glb'' None,
      Read_001 ''/tmp/1700000000000-a.glb'' None]"

text \<open>The encoder converts the first texture and throws on the second.\<close>

definition second_texture_env :: env where
  "second_texture_env =
     quiet_env\<lparr>compressTexture :=
       (\<lambda>h t opts. if image t = [4, 5, 6] then Inl boom
                    else Inr (t\<lparr>mimeType := ''image/webp''\<rparr>))\<rparr>"

definition before_draco :: "env \<Rightarrow> state \<Rightarrow> state" where
  "before_draco env st = stage_weld env (stage_texture env (stage_resample env st))"

section \<open>Lemmas about the handler\<close>

subsection \<open>Steps\<close>

lemma emit_simps [simp]:
  "trace (emit e st) = trace st @ [e]"
  "files (emit e st) = files st"
  "document (emit e st) = document st"
  "optimizationLevel (emit e st) = optimizationLevel st"
  "constants (emit e st) = constants st"
  by (simp_all add: emit_def constants_def)

lemma constants_update [simp]:
  "constants (st\<lparr>trace := tr\<rparr>) = constants st"
  "constants (st\<lparr>files := fs\<rparr>) = constants st"
  "constants (st\<lparr>document := d\<rparr>) = constants st"
  "constants (st\<lparr>optimizationLevel := l\<rparr>) = constants st"
  by (simp_all add: constants_def)

lemma constants_useDraco: "constants st' = constants st \<Longrightarrow> useDraco st' = useDraco st"
  by (simp add: constants_def)

lemma checkFileSize_trace:
  "\<exists>evs. size_check evs \<and> trace (checkFileSize env stage st) = trace st @ evs"
  unfolding checkFileSize_def Let_def io_write_def size_check_def
  by (auto split: sum.splits)

lemma checkFileSize_simps [simp]:
  "document (checkFileSize env stage st) = document st"
  "optimizationLevel (checkFileSize env stage st) = optimizationLevel st"
  "constants (checkFileSize env stage st) = constants st"
  unfolding checkFileSize_def Let_def io_write_def
  by (auto split: sum.splits)

lemma reached_trace:
  "\<exists>evs. size_check evs \<and>
     trace (reached env level stage st) = trace st @ Console Log (StageDone stage) # evs"
  using checkFileSize_trace
    [of env stage "emit (Console Log (StageDone stage)) (st\<lparr>optimizationLevel := level\<rparr>)"]
  by (auto simp: reached_def)

lemma reached_simps [simp]:
  "document (reached env level stage st) = document st"
  "optimizationLevel (reached env level stage st) = level"
  "constants (reached env level stage st) = constants st"
  by (simp_all add: reached_def)

lemma document_transform_single:
  "document_transform env [t] st =
     (snd (apply_transform env (trace st) t (document st)),
      st\<lparr>document := fst (apply_transform env (trace st) t (document st)),
         trace := trace st @ [Transform t (snd (apply_transform env (trace st) t (document st)))]\<rparr>)"
  by (cases "apply_transform env (trace st) t (document st)")
     (auto simp: document_transform_def split: option.splits)

text \<open>
  One guarded step. When the transform returns, the level is set and the size measured;
  when it throws, the state holds the document as the transform left it.
\<close>

lemma step_ok:
  assumes "apply_transform env (trace st) t (document st) = (d, None)"
  shows "\<exists>st1 evs. document_transform env [t] st = (None, st1) \<and> size_check evs \<and>
     trace (reached env level stage st1) =
       trace st @ Transform t None # Console Log (StageDone stage) # evs \<and>
     document (reached env level stage st1) = d \<and>
     constants (reached env level stage st1) = constants st"
proof -
  let ?st1 = "snd (document_transform env [t] st)"
  have t1: "trace ?st1 = trace st @ [Transform t None]" and d1: "document ?st1 = d"
    and c1: "constants ?st1 = constants st"
    and r1: "document_transform env [t] st = (None, ?st1)"
    using assms by (simp_all add: document_transform_single)
  from reached_trace [of env level stage ?st1] t1 d1 c1 r1
  show ?thesis by auto
qed

lemma step_failed:
  assumes "apply_transform env (trace st) t (document st) = (d, Some e)"
  shows "\<exists>st1. document_transform env [t] st = (Some e, st1) \<and>
     trace st1 = trace st @ [Transform t (Some e)] \<and> document st1 = d \<and>
     optimizationLevel st1 = optimizationLevel st \<and> constants st1 = constants st"
  using assms by (simp add: document_transform_single)

subsection \<open>The stages, case by case\<close>

lemma stage_resample_cases:
  "(animations (document st) = [] \<and> stage_resample env st = st) \<or>
   (animations (document st) \<noteq> [] \<and>
    (\<exists>d evs. apply_transform env (trace st) Resample (document st) = (d, None) \<and>
       size_check evs \<and>
       trace (stage_resample env st) =
         trace st @ Transform Resample None # Console Log (StageDone ''Resample'') # evs \<and>
       document (stage_resample env st) = d \<and>
       optimizationLevel (stage_resample env st) = ''advanced'')) \<or>
   (animations (document st) \<noteq> [] \<and>
    (\<exists>d e. apply_transform env (trace st) Resample (document st) = (d, Some e) \<and>
       trace (stage_resample env st) =
         trace st @ [Transform Resample (Some e), Console Warn (StageFailed ''Resample'' e)] \<and>
       document (stage_resample env st) = d \<and>
       optimizationLevel (stage_resample env st) = optimizationLevel st))"
proof (cases "animations (document st) = []")
  case True
  then show ?thesis by (simp add: stage_resample_def)
next
  case False
  obtain d r where a: "apply_transform env (trace st) Resample (document st) = (d, r)"
    by (cases "apply_transform env (trace st) Resample (document st)")
  show ?thesis
  proof (cases r)
    case None
    from step_ok [OF a [unfolded None], of "''advanced''" "''Resample''"] False a None
    show ?thesis
      by (auto simp: stage_resample_def)
  next
    case (Some e)
    from step_failed [OF a [unfolded Some]] False a Some show ?thesis
      by (auto simp: stage_resample_def)
  qed
qed

lemma stage_resample_constants [simp]:
  "constants (stage_resample env st) = constants st"
  by (auto simp: stage_resample_def document_transform_single split: prod.splits option.splits)

text \<open>The texture loop, by induction on the textures still to come.\<close>

lemma compress_textures_result:
  assumes "textures (document st) = processed @ ts"
    and "compress_textures env processed ts st = (r, st')"
  shows "constants st' = constants st \<and> optimizationLevel st' = optimizationLevel st \<and>
     animations (document st') = animations (document st) \<and>
     primitives (document st') = primitives (document st) \<and>
     (r = None \<longrightarrow>
        (\<exists>ts'. length ts' = length ts \<and> textures (document st') = processed @ ts' \<and>
           (\<forall>i<length ts.
              compressTexture env (trace st @ map (\<lambda>t. CompressTexture t None) (take i ts))
                (ts ! i) texture_opts = Inr (ts' ! i))) \<and>
        trace st' = trace st @ map (\<lambda>t. CompressTexture t None) ts) \<and>
     (\<forall>e. r = Some e \<longrightarrow>
        (\<exists>pre t post pre'. ts = pre @ t # post \<and> length pre' = length pre \<and>
           (\<forall>i<length pre.
              compressTexture env (trace st @ map (\<lambda>t. CompressTexture t None) (take i pre))
                (pre ! i) texture_opts = Inr (pre' ! i)) \<and>
           compressTexture env (trace st @ map (\<lambda>t. CompressTexture t None) pre) t texture_opts
             = Inl e \<and>
           textures (document st') = processed @ pre' @ t # post \<and>
           trace st' = trace st @ map (\<lambda>t. CompressTexture t None) pre
                          @ [CompressTexture t (Some e)]))"
  using assms
proof (induction ts arbitrary: processed st)
  case Nil
  then show ?case by simp
next
  case (Cons t ts)
  show ?case
  proof (cases "compressTexture env (trace st) t texture_opts")
    case (Inr t')
    let ?st1 = "emit (CompressTexture t None)
                  (st\<lparr>document := (document st)\<lparr>textures := processed @ t' # ts\<rparr>\<rparr>)"
    have inv: "textures (document ?st1) = (processed @ [t']) @ ts" by simp
    have run: "compress_textures env (processed @ [t']) ts ?st1 = (r, st')"
      using Cons.prems(2) Inr by simp
    have tr1: "\<And>xs. trace ?st1 @ xs = trace st @ CompressTexture t None # xs" by simp
    from Cons.IH [OF inv run]
    have ih: "constants st' = constants st \<and> optimizationLevel st' = optimizationLevel st \<and>
       animations (document st') = animations (document st) \<and>
       primitives (document st') = primitives (document st)"
      and ok: "r = None \<longrightarrow>
        (\<exists>ts'. length ts' = length ts \<and> textures (document st') = (processed @ [t']) @ ts' \<and>
           (\<forall>i<length ts.
              compressTexture env (trace ?st1 @ map (\<lambda>t. CompressTexture t None) (take i ts))
                (ts ! i) texture_opts = Inr (ts' ! i))) \<and>
        trace st' = trace ?st1 @ map (\<lambda>t. CompressTexture t None) ts"
      and bad: "\<forall>e. r = Some e \<longrightarrow>
        (\<exists>pre u post pre'. ts = pre @ u # post \<and> length pre' = length pre \<and>
           (\<forall>i<length pre.
              compressTexture env (trace ?st1 @ map (\<lambda>t. CompressTexture t None) (take i pre))
                (pre ! i) texture_opts = Inr (pre' ! i)) \<and>
           compressTexture env (trace ?st1 @ map (\<lambda>t. CompressTexture t None) pre) u texture_opts
             = Inl e \<and>
           textures (document st') = (processed @ [t']) @ pre' @ u # post \<and>
           trace st' = trace ?st1 @ map (\<lambda>t. CompressTexture t None) pre
                          @ [CompressTexture u (Some e)])"
      by simp_all
    have ok': "r = None \<longrightarrow>
        (\<exists>ts'. length ts' = length (t # ts) \<and> textures (document st') = processed @ ts' \<and>
           (\<forall>i<length (t # ts).
              compressTexture env (trace st @ map (\<lambda>t. CompressTexture t None) (take i (t # ts)))
                ((t # ts) ! i) texture_opts = Inr (ts' ! i))) \<and>
        trace st' = trace st @ map (\<lambda>t. CompressTexture t None) (t # ts)"
    proof
      assume "r = None"
      with ok obtain ts' where ts': "length ts' = length ts"
        "textures (document st') = (processed @ [t']) @ ts'"
        "\<forall>i<length ts.
              compressTexture env (trace ?st1 @ map (\<lambda>t. CompressTexture t None) (take i ts))
                (ts ! i) texture_opts = Inr (ts' ! i)"
        "trace st' = trace ?st1 @ map (\<lambda>t. CompressTexture t None) ts"
        by blast
      have each: "\<forall>i<length (t # ts).
              compressTexture env (trace st @ map (\<lambda>t. CompressTexture t None) (take i (t # ts)))
                ((t # ts) ! i) texture_opts = Inr ((t' # ts') ! i)"
      proof (intro allI impI)
        fix i assume i: "i < length (t # ts)"
        show "compressTexture env (trace st @ map (\<lambda>t. CompressTexture t None) (take i (t # ts)))
                ((t # ts) ! i) texture_opts = Inr ((t' # ts') ! i)"
        proof (cases i)
          case 0
          then show ?thesis using Inr by simp
        next
          case (Suc j)
          with i have "j < length ts" by simp
          with ts'(3) have "compressTexture env
              (trace ?st1 @ map (\<lambda>t. CompressTexture t None) (take j ts)) (ts ! j) texture_opts
              = Inr (ts' ! j)"
            by blast
          then show ?thesis using Suc by (simp only: tr1) simp
        qed
      qed
      show "(\<exists>ts'. length ts' = length (t # ts) \<and> textures (document st') = processed @ ts' \<and>
           (\<forall>i<length (t # ts).
              compressTexture env (trace st @ map (\<lambda>t. CompressTexture t None) (take i (t # ts)))
                ((t # ts) ! i) texture_opts = Inr (ts' ! i))) \<and>
        trace st' = trace st @ map (\<lambda>t. CompressTexture t None) (t # ts)"
      proof (intro conjI)
        show "\<exists>ts'. length ts' = length (t # ts) \<and> textures (document st') = processed @ ts' \<and>
           (\<forall>i<length (t # ts).
              compressTexture env (trace st @ map (\<lambda>t. CompressTexture t None) (take i (t # ts)))
                ((t # ts) ! i) texture_opts = Inr (ts' ! i))"
          using ts'(1,2) each by (intro exI [of _ "t' # ts'"]) simp
        show "trace st' = trace st @ map (\<lambda>t. CompressTexture t None) (t # ts)"
          using ts'(4) by simp
      qed
    qed
    have bad': "\<forall>e. r = Some e \<longrightarrow>
        (\<exists>pre u post pre'. t # ts = pre @ u # post \<and> length pre' = length pre \<and>
           (\<forall>i<length pre.
              compressTexture env (trace st @ map (\<lambda>t. CompressTexture t None) (take i pre))
                (pre ! i) texture_opts = Inr (pre' ! i)) \<and>
           compressTexture env (trace st @ map (\<lambda>t. CompressTexture t None) pre) u texture_opts
             = Inl e \<and>
           textures (document st') = processed @ pre' @ u # post \<and>
           trace st' = trace st @ map (\<lambda>t. CompressTexture t None) pre
                          @ [CompressTexture u (Some e)])"
    proof (intro allI impI)
      fix e assume "r = Some e"
      with bad obtain pre u post pre' where p: "ts = pre @ u # post" "length pre' = length pre"
        "\<forall>i<length pre.
              compressTexture env (trace ?st1 @ map (\<lambda>t. CompressTexture t None) (take i pre))
                (pre ! i) texture_opts = Inr (pre' ! i)"
        "compressTexture env (trace ?st1 @ map (\<lambda>t. CompressTexture t None) pre) u texture_opts
             = Inl e"
        "textures (document st') = (processed @ [t']) @ pre' @ u # post"
        "trace st' = trace ?st1 @ map (\<lambda>t. CompressTexture t None) pre
                          @ [CompressTexture u (Some e)]"
        by blast
      have each: "\<forall>i<length (t # pre).
              compressTexture env (trace st @ map (\<lambda>t. CompressTexture t None) (take i (t # pre)))
                ((t # pre) ! i) texture_opts = Inr ((t' # pre') ! i)"
      proof (intro allI impI)
        fix i assume i: "i < length (t # pre)"
        show "compressTexture env (trace st @ map (\<lambda>t. CompressTexture t None) (take i (t # pre)))
                ((t # pre) ! i) texture_opts = Inr ((t' # pre') ! i)"
        proof (cases i)
          case 0
          then show ?thesis using Inr by simp
        next
          case (Suc j)
          with i have "j < length pre" by simp
          with p(3) have "compressTexture env
              (trace ?st1 @ map (\<lambda>t. CompressTexture t None) (take j pre)) (pre ! j) texture_opts
              = Inr (pre' ! j)"
            by blast
          then show ?thesis using Suc by (simp only: tr1) simp
        qed
      qed
      have fails: "compressTexture env
          (trace st @ map (\<lambda>t. CompressTexture t None) (t # pre)) u texture_opts = Inl e"
        using p(4) by (simp only: tr1) simp
      show "\<exists>pre u post pre'. t # ts = pre @ u # post \<and> length pre' = length pre \<and>
           (\<forall>i<length pre.
              compressTexture env (trace st @ map (\<lambda>t. CompressTexture t None) (take i pre))
                (pre ! i) texture_opts = Inr (pre' ! i)) \<and>
           compressTexture env (trace st @ map (\<lambda>t. CompressTexture t None) pre) u texture_opts
             = Inl e \<and>
           textures (document st') = processed @ pre' @ u # post \<and>
           trace st' = trace st @ map (\<lambda>t. CompressTexture t None) pre
                          @ [CompressTexture u (Some e)]"
        apply (rule exI [of _ "t # pre"], rule exI [of _ u], rule exI [of _ post],
               rule exI [of _ "t' # pre'"])
        using p(1,2,5,6) each fails apply simp
        done
    qed
    from ih ok' bad' show ?thesis by simp
  next
    case (Inl e)
    have st': "st' = emit (CompressTexture t (Some e)) st" and r: "r = Some e"
      using Cons.prems(2) Inl by auto
    have "\<exists>pre u post pre'. t # ts = pre @ u # post \<and> length pre' = length pre \<and>
           (\<forall>i<length pre.
              compressTexture env (trace st @ map (\<lambda>t. CompressTexture t None) (take i pre))
                (pre ! i) texture_opts = Inr (pre' ! i)) \<and>
           compressTexture env (trace st @ map (\<lambda>t. CompressTexture t None) pre) u texture_opts
             = Inl e \<and>
           textures (document st') = processed @ pre' @ u # post \<and>
           trace st' = trace st @ map (\<lambda>t. CompressTexture t None) pre
                          @ [CompressTexture u (Some e)]"
      apply (rule exI [of _ "[]"], rule exI [of _ t], rule exI [of _ ts], rule exI [of _ "[]"])
      using st' Inl Cons.prems(1) apply simp
      done
    then show ?thesis using st' r by simp
  qed
qed

lemma stage_texture_cases:
  "(textures (document st) = [] \<and>
      trace (stage_texture env st) = trace st @ [Console Log NoTextures] \<and>
      document (stage_texture env st) = document st \<and>
      optimizationLevel (stage_texture env st) = optimizationLevel st) \<or>
   (textures (document st) \<noteq> [] \<and>
    (\<exists>ts' evs. size_check evs \<and> length ts' = length (textures (document st)) \<and>
       trace (stage_texture env st) =
         trace st @ Console Log (TexturesFound (length (textures (document st))))
           # map (\<lambda>t. CompressTexture t None) (textures (document st))
           @ Console Log (StageDone ''TextureCompress'') # evs \<and>
       textures (document (stage_texture env st)) = ts' \<and>
       optimizationLevel (stage_texture env st) = ''texture-compressed'')) \<or>
   (textures (document st) \<noteq> [] \<and>
    (\<exists>pre t post pre' e. textures (document st) = pre @ t # post \<and>
       length pre' = length pre \<and>
       (\<forall>i<length pre.
          compressTexture env
            (trace st @ Console Log (TexturesFound (length (textures (document st))))
               # map (\<lambda>t. CompressTexture t None) (take i pre))
            (pre ! i) texture_opts = Inr (pre' ! i)) \<and>
       compressTexture env
         (trace st @ Console Log (TexturesFound (length (textures (document st))))
            # map (\<lambda>t. CompressTexture t None) pre)
         t texture_opts = Inl e \<and>
       trace (stage_texture env st) =
         trace st @ Console Log (TexturesFound (length (textures (document st))))
           # map (\<lambda>t. CompressTexture t None) pre
           @ [CompressTexture t (Some e), Console Warn (StageFailed ''TextureCompress'' e)] \<and>
       textures (document (stage_texture env st)) = pre' @ t # post \<and>
       optimizationLevel (stage_texture env st) = optimizationLevel st))"
proof (cases "textures (document st) = []")
  case True
  then show ?thesis by (simp add: stage_texture_def)
next
  case False
  let ?ts = "textures (document st)"
  let ?st1 = "emit (Console Log (TexturesFound (length ?ts))) st"
  obtain r st2 where run: "compress_textures env [] ?ts ?st1 = (r, st2)"
    by (cases "compress_textures env [] ?ts ?st1")
  have inv: "textures (document ?st1) = [] @ ?ts" by simp
  have tr1: "\<And>xs. trace ?st1 @ xs = trace st @ Console Log (TexturesFound (length ?ts)) # xs"
    by simp
  note res = compress_textures_result [OF inv run]
  show ?thesis
  proof (cases r)
    case None
    with res obtain ts' where ts': "length ts' = length ?ts" "textures (document st2) = ts'"
      and tr: "trace st2 = trace ?st1 @ map (\<lambda>t. CompressTexture t None) ?ts"
      by auto
    obtain evs where evs: "size_check evs"
      "trace (reached env ''texture-compressed'' ''TextureCompress'' st2) =
         trace st2 @ Console Log (StageDone ''TextureCompress'') # evs"
      using reached_trace by blast
    have "stage_texture env st = reached env ''texture-compressed'' ''TextureCompress'' st2"
      using False run None by (simp add: stage_texture_def Let_def)
    with False ts' tr evs show ?thesis by auto
  next
    case (Some e)
    with res obtain pre t post pre' where p:
      "?ts = pre @ t # post" "length pre' = length pre"
      "\<forall>i<length pre.
          compressTexture env (trace ?st1 @ map (\<lambda>t. CompressTexture t None) (take i pre))
            (pre ! i) texture_opts = Inr (pre' ! i)"
      "compressTexture env (trace ?st1 @ map (\<lambda>t. CompressTexture t None) pre) t texture_opts
         = Inl e"
      "textures (document st2) = [] @ pre' @ t # post"
      "trace st2 = trace ?st1 @ map (\<lambda>t. CompressTexture t None) pre @ [CompressTexture t (Some e)]"
      and lv: "optimizationLevel st2 = optimizationLevel ?st1"
      by blast
    have st: "stage_texture env st = emit (Console Warn (StageFailed ''TextureCompress'' e)) st2"
      using False run Some by (simp add: stage_texture_def Let_def)
    have each: "\<forall>i<length pre.
          compressTexture env
            (trace st @ Console Log (TexturesFound (length ?ts))
               # map (\<lambda>t. CompressTexture t None) (take i pre))
            (pre ! i) texture_opts = Inr (pre' ! i)"
      using p(3) by (simp only: tr1)
    have fails: "compressTexture env
         (trace st @ Console Log (TexturesFound (length ?ts))
            # map (\<lambda>t. CompressTexture t None) pre)
         t texture_opts = Inl e"
      using p(4) by (simp only: tr1)
    have tr: "trace (stage_texture env st) =
         trace st @ Console Log (TexturesFound (length ?ts))
           # map (\<lambda>t. CompressTexture t None) pre
           @ [CompressTexture t (Some e), Console Warn (StageFailed ''TextureCompress'' e)]"
      using st p(6) by simp
    have doc: "textures (document (stage_texture env st)) = pre' @ t # post"
      using st p(5) by simp
    have lev: "optimizationLevel (stage_texture env st) = optimizationLevel st"
      using st lv by simp
    show ?thesis
      apply (intro disjI2)
      apply (rule conjI, rule False)
      apply (rule exI [of _ pre], rule exI [of _ t], rule exI [of _ post],
             rule exI [of _ pre'], rule exI [of _ e])
      using p(1,2) each fails tr doc lev apply blast
      done
  qed
qed

lemma stage_texture_frame [simp]:
  "constants (stage_texture env st) = constants st"
  "animations (document (stage_texture env st)) = animations (document st)"
  "primitives (document (stage_texture env st)) = primitives (document st)"
proof -
  let ?ts = "textures (document st)"
  let ?st1 = "emit (Console Log (TexturesFound (length ?ts))) st"
  obtain r st2 where run: "compress_textures env [] ?ts ?st1 = (r, st2)"
    by (cases "compress_textures env [] ?ts ?st1")
  have inv: "textures (document ?st1) = [] @ ?ts" by simp
  note res = compress_textures_result [OF inv run]
  show "constants (stage_texture env st) = constants st"
    using res run by (cases r) (auto simp: stage_texture_def Let_def)
  show "animations (document (stage_texture env st)) = animations (document st)"
    using res run by (cases r) (auto simp: stage_texture_def Let_def)
  show "primitives (document (stage_texture env st)) = primitives (document st)"
    using res run by (cases r) (auto simp: stage_texture_def Let_def)
qed

lemma quantize_fallback_cases:
  "(\<exists>d evs. apply_transform env (trace st @ [Console Warn WeldUnavailable])
                (Draco quantize_options) (document st) = (d, None) \<and>
       size_check evs \<and>
       trace (quantize_fallback env st) =
         trace st @ Console Warn WeldUnavailable # Transform (Draco quantize_options) None
           # Console Log (StageDone ''Pre-quantization'') # evs \<and>
       document (quantize_fallback env st) = d \<and>
       optimizationLevel (quantize_fallback env st) = ''pre-quantized'') \<or>
   (\<exists>d e. apply_transform env (trace st @ [Console Warn WeldUnavailable])
                (Draco quantize_options) (document st) = (d, Some e) \<and>
       trace (quantize_fallback env st) =
         trace st @ [Console Warn WeldUnavailable, Transform (Draco quantize_options) (Some e),
                     Console Warn (StageFailed ''Pre-quantization'' e),
                     Console Log SkipMeshOptimization] \<and>
       document (quantize_fallback env st) = d \<and>
       optimizationLevel (quantize_fallback env st) = optimizationLevel st)"
proof -
  let ?st0 = "emit (Console Warn WeldUnavailable) st"
  obtain d r where a: "apply_transform env (trace ?st0) (Draco quantize_options) (document ?st0) = (d, r)"
    by (cases "apply_transform env (trace ?st0) (Draco quantize_options) (document ?st0)")
  show ?thesis
  proof (cases r)
    case None
    from step_ok [OF a [unfolded None], of "''pre-quantized''" "''Pre-quantization''"] a None
    show ?thesis by (auto simp: quantize_fallback_def)
  next
    case (Some e)
    from step_failed [OF a [unfolded Some]] a Some
    show ?thesis by (auto simp: quantize_fallback_def)
  qed
qed

lemma quantize_fallback_constants [simp]:
  "constants (quantize_fallback env st) = constants st"
  by (auto simp: quantize_fallback_def document_transform_single split: prod.splits option.splits)

lemma stage_weld_cases:
  "(\<exists>d evs. weld_attempt env st = (d, None) \<and> size_check evs \<and>
       trace (stage_weld env st) =
         trace st @ ImportWeld None # Transform (Weld weld_options) None
           # Console Log (StageDone ''Weld'') # evs \<and>
       document (stage_weld env st) = d \<and>
       optimizationLevel (stage_weld env st) = ''welded'') \<or>
   (\<exists>d e st1 evs. weld_attempt env st = (d, Some e) \<and>
       (evs = [ImportWeld (Some e)] \<or>
        evs = [ImportWeld None, Transform (Weld weld_options) (Some e)]) \<and>
       trace st1 = trace st @ evs \<and> document st1 = d \<and>
       optimizationLevel st1 = optimizationLevel st \<and> constants st1 = constants st \<and>
       stage_weld env st = quantize_fallback env st1)"
proof (cases "import_weld env")
  case (Some e)
  then show ?thesis
    apply -
    apply (intro disjI2)
    apply (rule exI [of _ "document st"], rule exI [of _ e],
           rule exI [of _ "emit (ImportWeld (Some e)) st"], rule exI [of _ "[ImportWeld (Some e)]"])
    apply (simp add: weld_attempt_def stage_weld_def)
    done
next
  case None
  let ?st0 = "emit (ImportWeld None) st"
  obtain d r where a: "apply_transform env (trace ?st0) (Weld weld_options) (document ?st0) = (d, r)"
    by (cases "apply_transform env (trace ?st0) (Weld weld_options) (document ?st0)")
  show ?thesis
  proof (cases r)
    case None': None
    from step_ok [OF a [unfolded None'], of "''welded''" "''Weld''"] a None None'
    show ?thesis by (auto simp: stage_weld_def weld_attempt_def)
  next
    case (Some e)
    from step_failed [OF a [unfolded Some]] obtain st1 where
      "document_transform env [Weld weld_options] ?st0 = (Some e, st1)"
      "trace st1 = trace ?st0 @ [Transform (Weld weld_options) (Some e)]" "document st1 = d"
      "optimizationLevel st1 = optimizationLevel ?st0" "constants st1 = constants ?st0"
      by blast
    with a None Some show ?thesis
      apply -
      apply (intro disjI2)
      apply (rule exI [of _ d], rule exI [of _ e], rule exI [of _ st1],
             rule exI [of _ "[ImportWeld None, Transform (Weld weld_options) (Some e)]"])
      apply (simp add: weld_attempt_def stage_weld_def)
      done
  qed
qed

lemma stage_weld_constants [simp]:
  "constants (stage_weld env st) = constants st"
  using stage_weld_cases [of env st] step_ok [of env "emit (ImportWeld None) st" "Weld weld_options"]
  by (auto simp: stage_weld_def document_transform_single split: prod.splits option.splits)

lemma stage_draco_cases:
  "(\<not> useDraco st \<and>
      trace (stage_draco env st) = trace st @ [Console Log NoDracoModule] \<and>
      document (stage_draco env st) = document st \<and>
      optimizationLevel (stage_draco env st) = optimizationLevel st) \<or>
   (useDraco st \<and>
    (\<exists>d evs. apply_transform env (trace st) (Draco draco_default_options) (document st) = (d, None) \<and>
       size_check evs \<and>
       trace (stage_draco env st) =
         trace st @ Transform (Draco draco_default_options) None
           # Console Log (StageDone ''Draco'') # evs \<and>
       document (stage_draco env st) = d \<and>
       optimizationLevel (stage_draco env st) = ''draco'')) \<or>
   (useDraco st \<and>
    (\<exists>d e d2 evs.
       apply_transform env (trace st) (Draco draco_default_options) (document st) = (d, Some e) \<and>
       apply_transform env
         (trace st @ [Transform (Draco draco_default_options) (Some e),
                      Console Warn (StageFailed ''Draco'' e)])
         (Draco draco_retry_options) d = (d2, None) \<and>
       size_check evs \<and>
       trace (stage_draco env st) =
         trace st @ Transform (Draco draco_default_options) (Some e)
           # Console Warn (StageFailed ''Draco'' e)
           # Transform (Draco draco_retry_options) None
           # Console Log (StageDone ''Draco Simple'') # evs \<and>
       document (stage_draco env st) = d2 \<and>
       optimizationLevel (stage_draco env st) = ''draco-simple'')) \<or>
   (useDraco st \<and>
    (\<exists>d e d2 e2.
       apply_transform env (trace st) (Draco draco_default_options) (document st) = (d, Some e) \<and>
       apply_transform env
         (trace st @ [Transform (Draco draco_default_options) (Some e),
                      Console Warn (StageFailed ''Draco'' e)])
         (Draco draco_retry_options) d = (d2, Some e2) \<and>
       trace (stage_draco env st) =
         trace st @ [Transform (Draco draco_default_options) (Some e),
                     Console Warn (StageFailed ''Draco'' e),
                     Transform (Draco draco_retry_options) (Some e2),
                     Console Warn (StageFailed ''Draco Simple'' e2)] \<and>
       document (stage_draco env st) = d2 \<and>
       optimizationLevel (stage_draco env st) = optimizationLevel st))"
proof (cases "useDraco st")
  case False
  then show ?thesis by (simp add: stage_draco_def)
next
  case True
  obtain d r where a: "apply_transform env (trace st) (Draco draco_default_options) (document st) = (d, r)"
    by (cases "apply_transform env (trace st) (Draco draco_default_options) (document st)")
  show ?thesis
  proof (cases r)
    case None
    from step_ok [OF a [unfolded None], of "''draco''" "''Draco''"] a None True
    show ?thesis by (auto simp: stage_draco_def)
  next
    case (Some e)
    from step_failed [OF a [unfolded Some]] obtain st1 where st1:
      "document_transform env [Draco draco_default_options] st = (Some e, st1)"
      "trace st1 = trace st @ [Transform (Draco draco_default_options) (Some e)]"
      "document st1 = d" "optimizationLevel st1 = optimizationLevel st"
      by blast
    let ?st2 = "emit (Console Warn (StageFailed ''Draco'' e)) st1"
    obtain d2 r2 where b: "apply_transform env (trace ?st2) (Draco draco_retry_options) (document ?st2) = (d2, r2)"
      by (cases "apply_transform env (trace ?st2) (Draco draco_retry_options) (document ?st2)")
    have st: "stage_draco env st =
      (case document_transform env [Draco draco_retry_options] ?st2 of
         (None, st2) \<Rightarrow> reached env ''draco-simple'' ''Draco Simple'' st2
       | (Some e2, st2) \<Rightarrow> emit (Console Warn (StageFailed ''Draco Simple'' e2)) st2)"
      using True st1 by (simp add: stage_draco_def)
    show ?thesis
    proof (cases r2)
      case None
      from step_ok [OF b [unfolded None], of "''draco-simple''" "''Draco Simple''"] a b Some None True st1 st
      show ?thesis by auto
    next
      case Some2: (Some e2)
      from step_failed [OF b [unfolded Some2]] a b Some Some2 True st1 st
      show ?thesis by auto
    qed
  qed
qed

lemma stage_draco_constants [simp]:
  "constants (stage_draco env st) = constants st"
  by (auto simp: stage_draco_def document_transform_single split: prod.splits option.splits)

lemma late_stages_constants [simp]:
  "constants (late_stages env st) = constants st"
  by (simp add: late_stages_def)

lemma early_stages_cases:
  "(\<exists>d e st1. apply_transform env (trace st) Dedup (document st) = (d, Some e) \<and>
       early_stages env st = (Some e, st1) \<and>
       trace st1 = trace st @ [Transform Dedup (Some e)] \<and> document st1 = d \<and>
       optimizationLevel st1 = optimizationLevel st \<and> constants st1 = constants st) \<or>
   (\<exists>d evs d2 e st1. apply_transform env (trace st) Dedup (document st) = (d, None) \<and>
       size_check evs \<and>
       early_stages env st = (Some e, st1) \<and>
       trace st1 = trace st @ Transform Dedup None # Console Log (StageDone ''Dedup'') # evs
                     @ [Transform Prune (Some e)] \<and>
       document st1 = d2 \<and> optimizationLevel st1 = ''basic'' \<and> constants st1 = constants st) \<or>
   (\<exists>d evs d2 evs2 st1. apply_transform env (trace st) Dedup (document st) = (d, None) \<and>
       size_check evs \<and> size_check evs2 \<and>
       early_stages env st = (None, st1) \<and>
       trace st1 = trace st @ Transform Dedup None # Console Log (StageDone ''Dedup'') # evs
                     @ Transform Prune None # Console Log (StageDone ''Prune'') # evs2 \<and>
       document st1 = d2 \<and> optimizationLevel st1 = ''intermediate'' \<and>
       constants st1 = constants st)"
proof -
  obtain d r where a: "apply_transform env (trace st) Dedup (document st) = (d, r)"
    by (cases "apply_transform env (trace st) Dedup (document st)")
  show ?thesis
  proof (cases r)
    case (Some e)
    from step_failed [OF a [unfolded Some]] a Some
    show ?thesis by (auto simp: early_stages_def)
  next
    case None
    from step_ok [OF a [unfolded None], of "''basic''" "''Dedup''"] obtain st1 evs where st1:
      "document_transform env [Dedup] st = (None, st1)" "size_check evs"
      "trace (reached env ''basic'' ''Dedup'' st1) =
         trace st @ Transform Dedup None # Console Log (StageDone ''Dedup'') # evs"
      "constants (reached env ''basic'' ''Dedup'' st1) = constants st"
      by blast
    let ?st2 = "reached env ''basic'' ''Dedup'' st1"
    obtain d2 r2 where b: "apply_transform env (trace ?st2) Prune (document ?st2) = (d2, r2)"
      by (cases "apply_transform env (trace ?st2) Prune (document ?st2)")
    have st: "early_stages env st =
      (case document_transform env [Prune] ?st2 of
         (Some e, st2) \<Rightarrow> (Some e, st2)
       | (None, st2) \<Rightarrow> (None, reached env ''intermediate'' ''Prune'' st2))"
      using st1 by (simp add: early_stages_def)
    show ?thesis
    proof (cases r2)
      case Some2: (Some e)
      from step_failed [OF b [unfolded Some2]] a None st1 st
      show ?thesis by auto
    next
      case None2: None
      from step_ok [OF b [unfolded None2], of "''intermediate''" "''Prune''"] a None st1 st
      show ?thesis by auto
    qed
  qed
qed

subsection \<open>Passes and logged failures of a list of events\<close>

lemma passes_simps [simp]:
  "passes [] = []"
  "passes (xs @ ys) = passes xs @ passes ys"
  "passes (Transform t r # xs) = Transform t r # passes xs"
  "passes (CompressTexture u r # xs) = CompressTexture u r # passes xs"
  "passes (Console sev m # xs) = passes xs"
  "passes (IoWrite p r # xs) = passes xs"
  "passes (IoRead p r # xs) = passes xs"
  "passes (WriteFile p r # xs) = passes xs"
  "passes (ImportWeld r # xs) = passes xs"
  "passes (CreateDecoderModule r # xs) = passes xs"
  "passes (CreateEncoderModule r # xs) = passes xs"
  "passes (RegisterDependencies r # xs) = passes xs"
  by (simp_all add: passes_def)

lemma passes_compress [simp]:
  "passes (map (\<lambda>t. CompressTexture t None) ts) = map (\<lambda>t. CompressTexture t None) ts"
  by (induction ts) simp_all

lemma passes_size_check [simp]: "size_check evs \<Longrightarrow> passes evs = []"
  by (auto simp: size_check_def)

lemma set_passes: "set (passes tr) = {e \<in> set tr. is_pass e}"
  by (simp add: passes_def)

lemma Transform_in_passes [simp]: "Transform t r \<in> set (passes tr) \<longleftrightarrow> Transform t r \<in> set tr"
  by (simp add: set_passes)

lemma failures_logged_Cons_ok [simp]:
  "\<not> failed_call e \<Longrightarrow> failures_logged (e # es) = failures_logged es"
  by (cases es) simp_all

lemma failures_logged_Cons_complained [simp]:
  "complaint e' \<Longrightarrow> failures_logged (e # e' # es) = failures_logged (e' # es)"
  by simp

lemma failures_logged_append:
  "failures_logged xs \<Longrightarrow> failures_logged ys \<Longrightarrow> failures_logged (xs @ ys)"
proof (induction xs rule: failures_logged.induct)
  case 1
  then show ?case by simp
next
  case (2 e)
  then show ?case by simp
next
  case (3 e e' es)
  then show ?case by simp
qed

lemma failures_logged_size_check [simp]: "size_check evs \<Longrightarrow> failures_logged evs"
  by (auto simp: size_check_def)

lemma failures_logged_compress [simp]:
  "failures_logged (map (\<lambda>t. CompressTexture t None) ts @ es) = failures_logged es"
  by (induction ts) simp_all

lemma new_events_append [simp]: "trace st' = trace st @ evs \<Longrightarrow> new_events st st' = evs"
  by (simp add: new_events_def)

lemma new_events_same [simp]: "new_events st st = []"
  by (simp add: new_events_def)

subsection \<open>\<^verbatim>\<open>initializeDraco\<close> and the lines before the pipeline\<close>

lemma initializeDraco_result:
  assumes "initializeDraco env srv = ((dec, enc), srv', evs)"
  shows "disk srv' = disk srv" and "passes evs = []" and "failures_logged evs"
    and "(dec \<noteq> None \<and> enc \<noteq> None) \<longleftrightarrow>
         (decoderModule srv' \<noteq> None \<and> encoderModule srv' \<noteq> None \<and> dracoInitialized srv')"
  using assms
  by (auto simp: initializeDraco_def split: if_splits sum.splits)

lemma register_draco_events [simp]:
  "passes (register_draco env use) = []"
  "failures_logged (register_draco env use)"
  by (auto simp: register_draco_def split: option.splits)

lemma map_of_update_same [simp]: "map_of (AList.update k v al) k = Some v"
  by (simp add: update_conv')

lemma stat_size_written [simp]: "stat_size (AList.update p b fs) p = Inr (length b)"
  by (simp add: stat_size_def)

lemma failed_simps [simp]:
  "response (failed e srv tr) = error_response e"
  "server_after (failed e srv tr) = srv"
  "events (failed e srv tr) = tr @ [Console Err (SaveError e)]"
  "status (error_response e) = 500"
  by (simp_all add: failed_def error_response_def)

lemma json_get_error_response [simp]:
  "json_get (body (error_response e)) ''error'' =
     Some (case e of Error m stack \<Rightarrow> JString m | NonError v \<Rightarrow> JPhrase DefaultError)"
  by (cases e) (simp_all add: error_response_def)

lemma no_file_simps [simp]:
  "status (response (no_file srv)) = 400"
  "events (no_file srv) = []"
  "server_after (no_file srv) = srv"
  by (simp_all add: no_file_def)

text \<open>When the lines before the pipeline answer themselves, no pass has run.\<close>

lemma prepare_Inl:
  assumes "prepare env srv req = Inl out"
  shows "passes (events out) = []" and "failures_logged (events out)"
    and "status (response out) = 400 \<or> status (response out) = 500"
proof -
  have "passes (events out) = [] \<and> failures_logged (events out) \<and>
        (status (response out) = 400 \<or> status (response out) = 500)"
  proof (cases "formData req")
    case (Inl e)
    with assms show ?thesis by (auto simp: prepare_def)
  next
    case (Inr fd)
    show ?thesis
    proof (cases "fd ''file''")
      case None
      with assms Inr show ?thesis by (auto simp: prepare_def)
    next
      case (Some v)
      show ?thesis
      proof (cases v)
        case (StringValue s)
        with assms Inr Some show ?thesis by (auto simp: prepare_def split: if_splits)
      next
        case (FileValue f)
        let ?name = "if name f = [] then ''model.glb'' else name f"
        let ?inPath = "path_join (tmpdir env) (uuidv4 env @ ''-'' @ ?name)"
        show ?thesis
        proof (cases "writeFile env ?inPath (content f)")
          case w: (Some e)
          with assms Inr Some FileValue show ?thesis by (auto simp: prepare_def Let_def)
        next
          case w: None
          let ?srv1 = "srv\<lparr>disk := AList.update ?inPath (content f) (disk srv)\<rparr>"
          obtain dec enc srv2 evs where i: "initializeDraco env ?srv1 = ((dec, enc), srv2, evs)"
            by (cases "initializeDraco env ?srv1") auto
          note r = initializeDraco_result [OF i]
          from assms Inr Some FileValue w i r show ?thesis
            by (auto simp: prepare_def Let_def intro!: failures_logged_append split: sum.splits)
        qed
      qed
    qed
  qed
  then show "passes (events out) = []" and "failures_logged (events out)"
    and "status (response out) = 400 \<or> status (response out) = 500"
    by simp_all
qed

text \<open>When they reach the pipeline, this is the state it starts in.\<close>

lemma prepare_Inr:
  assumes "prepare env srv req = Inr (srv1, st)"
  shows "\<exists>fd f. formData req = Inr fd \<and> fd ''file'' = Some (FileValue f) \<and>
           decode env (content f) = Inr (document st) \<and>
           originalSize st = length (content f)"
    and "passes (trace st) = []" and "failures_logged (trace st)"
    and "optimizationLevel st = ''none''"
    and "files st = disk srv1"
    and "useDraco st \<longleftrightarrow>
         (decoderModule srv1 \<noteq> None \<and> encoderModule srv1 \<noteq> None \<and> dracoInitialized srv1)"
proof -
  from assms obtain fd where fd: "formData req = Inr fd"
    by (cases "formData req") (auto simp: prepare_def)
  from assms fd obtain v where v: "fd ''file'' = Some v"
    by (cases "fd ''file''") (auto simp: prepare_def)
  from assms fd v obtain f where f: "v = FileValue f"
    by (cases v) (auto simp: prepare_def split: if_splits)
  let ?name = "if name f = [] then ''model.glb'' else name f"
  let ?inPath = "path_join (tmpdir env) (uuidv4 env @ ''-'' @ ?name)"
  from assms fd v f have w: "writeFile env ?inPath (content f) = None"
    by (cases "writeFile env ?inPath (content f)") (auto simp: prepare_def Let_def)
  let ?srv1 = "srv\<lparr>disk := AList.update ?inPath (content f) (disk srv)\<rparr>"
  obtain dec enc srv2 evs where i: "initializeDraco env ?srv1 = ((dec, enc), srv2, evs)"
    by (cases "initializeDraco env ?srv1") auto
  note r = initializeDraco_result [OF i]
  from assms fd v f w i r
  have "(\<exists>fd f. formData req = Inr fd \<and> fd ''file'' = Some (FileValue f) \<and>
           decode env (content f) = Inr (document st) \<and>
           originalSize st = length (content f)) \<and>
        passes (trace st) = [] \<and> failures_logged (trace st) \<and>
        optimizationLevel st = ''none'' \<and> files st = disk srv1 \<and>
        (useDraco st \<longleftrightarrow>
         (decoderModule srv1 \<noteq> None \<and> encoderModule srv1 \<noteq> None \<and> dracoInitialized srv1))"
    by (auto simp: prepare_def Let_def io_read_def intro!: failures_logged_append
             split: sum.splits)
  then show "\<exists>fd f. formData req = Inr fd \<and> fd ''file'' = Some (FileValue f) \<and>
           decode env (content f) = Inr (document st) \<and>
           originalSize st = length (content f)"
    and "passes (trace st) = []" and "failures_logged (trace st)"
    and "optimizationLevel st = ''none''"
    and "files st = disk srv1"
    and "useDraco st \<longleftrightarrow>
         (decoderModule srv1 \<noteq> None \<and> encoderModule srv1 \<noteq> None \<and> dracoInitialized srv1)"
    by blast+
qed

subsection \<open>The request as a composition of its steps\<close>

lemma answer_simps [simp]:
  "response (answer srv (Inr resp, st)) = resp"
  "events (answer srv (Inr resp, st)) = trace st"
  "response (answer srv (Inl e, st)) = error_response e"
  "events (answer srv (Inl e, st)) = trace st @ [Console Err (SaveError e)]"
  by (simp_all add: answer_def)

lemma try_catch_pipeline:
  "early_stages env st = (None, st2) \<Longrightarrow> try_catch env st = (None, late_stages env st2)"
  by (simp add: try_catch_def try_block_def)

lemma try_catch_thrown:
  "early_stages env st = (Some e, st2) \<Longrightarrow> try_catch env st = catch_block env e st2"
  by (simp add: try_catch_def try_block_def)

lemma POST_pipeline:
  assumes "prepare env srv req = Inr (srv1, st)" and "early_stages env st = (None, st2)"
  shows "POST env srv req = answer srv1 (finish env (late_stages env st2))"
  using assms by (simp add: POST_def try_catch_pipeline)

lemma POST_thrown:
  assumes "prepare env srv req = Inr (srv1, st)" and "early_stages env st = (Some e, st2)"
  shows "POST env srv req =
           (case fst (catch_block env e st2) of
              Some resp \<Rightarrow> answer srv1 (Inr resp, snd (catch_block env e st2))
            | None \<Rightarrow> answer srv1 (finish env (snd (catch_block env e st2))))"
  using assms by (simp add: POST_def try_catch_thrown split: prod.splits option.splits)

lemma POST_prepared:
  "prepare env srv req = Inl out \<Longrightarrow> POST env srv req = out"
  by (simp add: POST_def)

lemma prepare_file:
  assumes "formData req = Inr fd" and "fd ''file'' = Some (FileValue f)"
  shows "(\<exists>e. prepare env srv req = Inl (failed e srv
              [WriteFile (path_join (tmpdir env)
                 (uuidv4 env @ ''-'' @ (if name f = [] then ''model.glb'' else name f))) (Some e)]) \<and>
            writeFile env (path_join (tmpdir env)
                 (uuidv4 env @ ''-'' @ (if name f = [] then ''model.glb'' else name f)))
              (content f) = Some e) \<or>
         (writeFile env (path_join (tmpdir env)
                 (uuidv4 env @ ''-'' @ (if name f = [] then ''model.glb'' else name f)))
              (content f) = None \<and>
          ((\<exists>e srv2 tr. decode env (content f) = Inl e \<and> passes tr = [] \<and>
               prepare env srv req = Inl (failed e srv2 tr)) \<or>
           (\<exists>d srv2 st. decode env (content f) = Inr d \<and>
               prepare env srv req = Inr (srv2, st))))"
proof -
  let ?name = "if name f = [] then ''model.glb'' else name f"
  let ?inPath = "path_join (tmpdir env) (uuidv4 env @ ''-'' @ ?name)"
  show ?thesis
  proof (cases "writeFile env ?inPath (content f)")
    case (Some e)
    with assms show ?thesis by (simp add: prepare_def Let_def)
  next
    case None
    let ?srv1 = "srv\<lparr>disk := AList.update ?inPath (content f) (disk srv)\<rparr>"
    obtain dec enc srv2 evs where i: "initializeDraco env ?srv1 = ((dec, enc), srv2, evs)"
      by (cases "initializeDraco env ?srv1") auto
    note r = initializeDraco_result [OF i]
    show ?thesis
    proof (cases "decode env (content f)")
      case (Inl e)
      with assms None i r
      have "prepare env srv req =
              Inl (failed e srv2 ([WriteFile ?inPath None, Console Log (OriginalSize (length (content f)))]
                     @ evs @ register_draco env (dec \<noteq> None \<and> enc \<noteq> None)
                     @ [IoRead ?inPath (Some e)]))"
        by (simp add: prepare_def Let_def io_read_def)
      moreover have "passes ([WriteFile ?inPath None, Console Log (OriginalSize (length (content f)))]
                     @ evs @ register_draco env (dec \<noteq> None \<and> enc \<noteq> None)
                     @ [IoRead ?inPath (Some e)]) = []"
        using r by simp
      ultimately show ?thesis using None Inl by blast
    next
      case (Inr d)
      with assms None i r show ?thesis
        by (simp add: prepare_def Let_def io_read_def)
    qed
  qed
qed

text \<open>
  C9. A form without the field \<open>file\<close> is answered with status 400 and an error
  message; the trace is empty, so nothing was written, decoded or transformed, and the
  server is as it was.
\<close>

theorem missing_file_is_400:
  assumes "formData req = Inr fd" and "fd ''file'' = None"
  shows "POST env srv req =
           \<lparr>response = \<lparr>status = 400, body = JObject [(''error'', JPhrase NoFile)]\<rparr>,
            server_after = srv, events = []\<rparr>"
  using assms by (simp add: POST_def prepare_def no_file_def)

theorem missing_file_is_400_witness:
  "formData empty_request = Inr Map.empty \<and> (Map.empty :: string \<rightharpoonup> form_value) ''file'' = None \<and>
   POST quiet_env fresh_server empty_request =
     \<lparr>response = \<lparr>status = 400, body = JObject [(''error'', JPhrase NoFile)]\<rparr>,
      server_after = fresh_server, events = []\<rparr>"
  using missing_file_is_400 [of empty_request Map.empty quiet_env fresh_server]
  by (simp add: empty_request_def)

text \<open>
  C3. When the decoder rejects the uploaded bytes, the request is answered with status
  500 and an error message, and no pass has run: the trace holds no transform and no
  texture compression. When the upload could be written to the temporary directory, the
  error of the response is the decoder's.
\<close>

theorem decode_failure_is_fatal:
  assumes "formData req = Inr fd" and "fd ''file'' = Some (FileValue f)"
    and "decode env (content f) = Inl e"
  shows "status (response (POST env srv req)) = 500 \<and>
         json_get (body (response (POST env srv req))) ''error'' \<noteq> None \<and>
         passes (events (POST env srv req)) = [] \<and>
         (writeFile env (path_join (tmpdir env)
                 (uuidv4 env @ ''-'' @ (if name f = [] then ''model.glb'' else name f)))
              (content f) = None \<longrightarrow>
          response (POST env srv req) = error_response e)"
  using prepare_file [OF assms(1,2), of env srv] assms(3)
  by (auto simp: POST_prepared)

theorem decode_failure_is_fatal_witness:
  "formData sample_request = Inr sample_form \<and>
   sample_form ''file'' = Some (FileValue sample_upload) \<and>
   decode corrupt_env (content sample_upload) = Inl (Error ''Invalid glb header'' ''at read'') \<and>
   status (response (POST corrupt_env fresh_server sample_request)) = 500 \<and>
   passes (events (POST corrupt_env fresh_server sample_request)) = [] \<and>
   response (POST corrupt_env fresh_server sample_request) =
     error_response (Error ''Invalid glb header'' ''at read'')"
  using decode_failure_is_fatal [of sample_request sample_form sample_upload corrupt_env
          "Error ''Invalid glb header'' ''at read''" fresh_server]
  by (simp add: sample_request_def sample_form_def corrupt_env_def quiet_env_def)

subsection \<open>Stage 6: Draco\<close>

lemma before_draco_constants [simp]: "constants (before_draco env st) = constants st"
  by (simp add: before_draco_def)

lemma late_stages_before_draco: "late_stages env st = stage_draco env (before_draco env st)"
  by (simp add: late_stages_def before_draco_def)

lemma early_stages_constants:
  "early_stages env st = (r, st') \<Longrightarrow> constants st' = constants st"
  using early_stages_cases [of env st] by auto

text \<open>
  C5. The state \<open>st\<close> is the one in which stage 6 starts. The stage runs a transform
  only when \<open>useDraco\<close> holds, that is when the decoder and the encoder module are both
  loaded; otherwise it logs that it is skipped and leaves the document alone. When the
  first attempt, with the library's defaults, throws, exactly one more Draco transform
  runs, with \<^verbatim>\<open>quantizePosition: 12\<close> as its only option, fewer position bits than the
  default whenever the library's default is above 12. When the retry throws as well, the
  level tag stays and the document is as the retry left it.
\<close>

theorem draco_retries_once:
  assumes "prepare env srv req = Inr (srv1, st0)"
    and "early_stages env st0 = (None, st2)"
    and "st = before_draco env st2"
  shows "(useDraco st \<longleftrightarrow>
            decoderModule srv1 \<noteq> None \<and> encoderModule srv1 \<noteq> None \<and> dracoInitialized srv1) \<and>
         (\<not> useDraco st \<longrightarrow>
            new_events st (stage_draco env st) = [Console Log NoDracoModule] \<and>
            document (stage_draco env st) = document st) \<and>
         (\<forall>d e. useDraco st \<and>
            apply_transform env (trace st) (Draco draco_default_options) (document st) = (d, Some e) \<longrightarrow>
            (\<exists>d2 r.
               apply_transform env
                 (trace st @ [Transform (Draco draco_default_options) (Some e),
                              Console Warn (StageFailed ''Draco'' e)])
                 (Draco draco_retry_options) d = (d2, r) \<and>
               passes (new_events st (stage_draco env st)) =
                 [Transform (Draco draco_default_options) (Some e),
                  Transform (Draco draco_retry_options) r] \<and>
               document (stage_draco env st) = d2 \<and>
               (r \<noteq> None \<longrightarrow>
                  optimizationLevel (stage_draco env st) = optimizationLevel st))) \<and>
         draco_retry_options =
           \<lparr>quantizePosition = Some 12, quantizeNormal = None, quantizeTexcoord = None\<rparr> \<and>
         (12 < library_default \<longrightarrow>
            position_bits library_default draco_retry_options
              < position_bits library_default draco_default_options)"
proof -
  have "constants st = constants st0"
    using assms(2,3) early_stages_constants by simp
  then have use: "useDraco st = useDraco st0"
    by (rule constants_useDraco)
  have a: "useDraco st \<longleftrightarrow>
            decoderModule srv1 \<noteq> None \<and> encoderModule srv1 \<noteq> None \<and> dracoInitialized srv1"
    using prepare_Inr(6) [OF assms(1)] use by simp
  have b: "\<not> useDraco st \<longrightarrow>
            new_events st (stage_draco env st) = [Console Log NoDracoModule] \<and>
            document (stage_draco env st) = document st"
    using stage_draco_cases [of st env] by auto
  have c: "\<forall>d e. useDraco st \<and>
            apply_transform env (trace st) (Draco draco_default_options) (document st) = (d, Some e) \<longrightarrow>
            (\<exists>d2 r.
               apply_transform env
                 (trace st @ [Transform (Draco draco_default_options) (Some e),
                              Console Warn (StageFailed ''Draco'' e)])
                 (Draco draco_retry_options) d = (d2, r) \<and>
               passes (new_events st (stage_draco env st)) =
                 [Transform (Draco draco_default_options) (Some e),
                  Transform (Draco draco_retry_options) r] \<and>
               document (stage_draco env st) = d2 \<and>
               (r \<noteq> None \<longrightarrow>
                  optimizationLevel (stage_draco env st) = optimizationLevel st))"
    using stage_draco_cases [of st env] by auto
  have d: "draco_retry_options =
           \<lparr>quantizePosition = Some 12, quantizeNormal = None, quantizeTexcoord = None\<rparr>"
    by (simp add: draco_retry_options_def)
  have e: "12 < library_default \<longrightarrow>
            position_bits library_default draco_retry_options
              < position_bits library_default draco_default_options"
    by (simp add: position_bits_def draco_retry_options_def draco_default_options_def)
  from a b c d e show ?thesis by blast
qed

theorem draco_retries_once_witness:
  "prepare draco_default_fails_env fresh_server sample_request
     = Inr (prepared_server, prepared_state) \<and>
   early_stages draco_default_fails_env prepared_state = (None, pruned_state) \<and>
   useDraco (before_draco draco_default_fails_env pruned_state) \<and>
   apply_transform draco_default_fails_env
     (trace (before_draco draco_default_fails_env pruned_state))
     (Draco draco_default_options)
     (document (before_draco draco_default_fails_env pruned_state))
     = (sample_document, Some boom) \<and>
   passes (new_events (before_draco draco_default_fails_env pruned_state)
            (stage_draco draco_default_fails_env
               (before_draco draco_default_fails_env pruned_state))) =
     [Transform (Draco draco_default_options) (Some boom),
      Transform (Draco draco_retry_options) None] \<and>
   (12::nat) < 14 \<and>
   position_bits 14 draco_retry_options < position_bits 14 draco_default_options"
proof -
  let ?E = draco_default_fails_env
  let ?st = "before_draco ?E pruned_state"
  have h1: "prepare ?E fresh_server sample_request = Inr (prepared_server, prepared_state)"
    by code_simp
  have h2: "early_stages ?E prepared_state = (None, pruned_state)"
    by code_simp
  have h3: "useDraco ?st"
    by code_simp
  have h4: "apply_transform ?E (trace ?st) (Draco draco_default_options) (document ?st)
              = (sample_document, Some boom)"
    by code_simp
  have h5: "apply_transform ?E
              (trace ?st @ [Transform (Draco draco_default_options) (Some boom),
                            Console Warn (StageFailed ''Draco'' boom)])
              (Draco draco_retry_options) sample_document = (sample_document, None)"
    by code_simp
  from draco_retries_once [OF h1 h2 refl, of 14] h1 h2 h3 h4 h5
  show ?thesis by auto
qed

subsection \<open>Stage 5: weld, or quantization\<close>

lemma weld_options_value: "weld_options = 1 / 10000"
  by (simp add: weld_options_def)

lemma quantize_options_value:
  "quantize_options =
     \<lparr>quantizePosition = Some 12, quantizeNormal = Some 10, quantizeTexcoord = Some 10\<rparr>"
  by (simp add: quantize_options_def)

lemma quantize_fallback_passes:
  "\<exists>r. passes (new_events st (quantize_fallback env st)) = [Transform (Draco quantize_options) r] \<and>
     document (quantize_fallback env st) =
       fst (apply_transform env (trace st @ [Console Warn WeldUnavailable])
              (Draco quantize_options) (document st))"
  using quantize_fallback_cases [of env st] by auto

lemma quantize_fallback_new_events:
  "\<exists>evs. trace (quantize_fallback env st) = trace st @ evs \<and>
     (\<forall>tol r. Transform (Weld tol) r \<notin> set evs)"
  using quantize_fallback_cases [of env st] by (auto simp: size_check_def)

lemma stage_weld_starts:
  "\<exists>r evs. trace (stage_weld env st) = trace st @ ImportWeld r # evs"
proof -
  consider
    (ok) evs where
      "trace (stage_weld env st) =
         trace st @ ImportWeld None # Transform (Weld weld_options) None
           # Console Log (StageDone ''Weld'') # evs"
  | (fallback) e st1 evs where
      "evs = [ImportWeld (Some e)] \<or>
       evs = [ImportWeld None, Transform (Weld weld_options) (Some e)]"
      "trace st1 = trace st @ evs"
      "stage_weld env st = quantize_fallback env st1"
    using stage_weld_cases [of env st] by blast
  then show ?thesis
  proof cases
    case ok
    then show ?thesis by blast
  next
    case fallback
    obtain evs2 where "trace (quantize_fallback env st1) = trace st1 @ evs2"
      using quantize_fallback_new_events by blast
    with fallback show ?thesis by auto
  qed
qed

text \<open>
  C6, as the code has it. Every weld the stage attempts has tolerance 1e-4. When the weld
  is unavailable (the import throws) or fails (the transform throws), the handler warns
  and runs the library's Draco transform with 12 position bits, 10 normal bits and 10
  texcoord bits on the document the weld attempt left; that is the only other pass of the
  stage, the document after the stage is the one this transform left, and the level
  becomes \<^verbatim>\<open>"pre-quantized"\<close> exactly when it returned. When the weld returns, the
  document is the welded one, the level is \<^verbatim>\<open>"welded"\<close> and no quantization runs. The
  handler says nothing about the vertex count: it is whatever the Draco transform leaves.
\<close>

theorem weld_falls_back_to_quantization:
  "(\<forall>tol r. Transform (Weld tol) r \<in> set (new_events st (stage_weld env st)) \<longrightarrow>
      tol = 1 / 10000) \<and>
   (\<forall>d e. weld_attempt env st = (d, Some e) \<longrightarrow>
      (\<exists>evs d2 r rest.
         (evs = [ImportWeld (Some e)] \<or>
          evs = [ImportWeld None, Transform (Weld (1 / 10000)) (Some e)]) \<and>
         apply_transform env (trace st @ evs @ [Console Warn WeldUnavailable])
           (Draco \<lparr>quantizePosition = Some 12, quantizeNormal = Some 10,
                   quantizeTexcoord = Some 10\<rparr>) d = (d2, r) \<and>
         new_events st (stage_weld env st) =
           evs @ Console Warn WeldUnavailable
             # Transform (Draco \<lparr>quantizePosition = Some 12, quantizeNormal = Some 10,
                                 quantizeTexcoord = Some 10\<rparr>) r # rest \<and>
         passes rest = [] \<and>
         document (stage_weld env st) = d2 \<and>
         optimizationLevel (stage_weld env st) =
           (if r = None then ''pre-quantized'' else optimizationLevel st))) \<and>
   (\<forall>d. weld_attempt env st = (d, None) \<longrightarrow>
      passes (new_events st (stage_weld env st)) = [Transform (Weld (1 / 10000)) None] \<and>
      document (stage_weld env st) = d \<and>
      optimizationLevel (stage_weld env st) = ''welded'')"
proof -
  consider
    (ok) d evs where "weld_attempt env st = (d, None)" "size_check evs"
      "trace (stage_weld env st) =
         trace st @ ImportWeld None # Transform (Weld weld_options) None
           # Console Log (StageDone ''Weld'') # evs"
      "document (stage_weld env st) = d"
      "optimizationLevel (stage_weld env st) = ''welded''"
  | (fallback) d e st1 evs where "weld_attempt env st = (d, Some e)"
      "evs = [ImportWeld (Some e)] \<or>
       evs = [ImportWeld None, Transform (Weld weld_options) (Some e)]"
      "trace st1 = trace st @ evs" "document st1 = d"
      "optimizationLevel st1 = optimizationLevel st"
      "stage_weld env st = quantize_fallback env st1"
    using stage_weld_cases [of env st] by blast
  then show ?thesis
  proof cases
    case ok
    then show ?thesis
      by (auto simp: weld_options_value size_check_def)
  next
    case fallback
    let ?q = "Draco \<lparr>quantizePosition = Some 12, quantizeNormal = Some 10,
                     quantizeTexcoord = Some 10\<rparr>"
    let ?h = "trace st @ evs @ [Console Warn WeldUnavailable]"
    have q: "Draco quantize_options = ?q" by (simp add: quantize_options_value)
    have h: "trace st1 @ [Console Warn WeldUnavailable] = ?h"
      using fallback(3) by simp
    have evs': "evs = [ImportWeld (Some e)] \<or>
                evs = [ImportWeld None, Transform (Weld (1 / 10000)) (Some e)]"
      using fallback(2) by (simp add: weld_options_value)
    from quantize_fallback_cases [of env st1]
    have "\<exists>d2 r rest. apply_transform env ?h ?q d = (d2, r) \<and>
        trace (quantize_fallback env st1) =
          trace st1 @ Console Warn WeldUnavailable # Transform ?q r # rest \<and>
        passes rest = [] \<and> (\<forall>tol r'. Transform (Weld tol) r' \<notin> set rest) \<and>
        document (quantize_fallback env st1) = d2 \<and>
        optimizationLevel (quantize_fallback env st1) =
          (if r = None then ''pre-quantized'' else optimizationLevel st)"
      unfolding h q fallback(4) fallback(5)
    proof (elim disjE exE conjE)
      fix d2 evs2
      assume "apply_transform env ?h ?q d = (d2, None)" "size_check evs2"
        "trace (quantize_fallback env st1) =
           trace st1 @ Console Warn WeldUnavailable # Transform ?q None
             # Console Log (StageDone ''Pre-quantization'') # evs2"
        "document (quantize_fallback env st1) = d2"
        "optimizationLevel (quantize_fallback env st1) = ''pre-quantized''"
      then show ?thesis
        apply -
        apply (rule exI [of _ d2], rule exI [of _ None],
               rule exI [of _ "Console Log (StageDone ''Pre-quantization'') # evs2"])
        apply (auto simp: size_check_def)
        done
    next
      fix d2 e2
      assume "apply_transform env ?h ?q d = (d2, Some e2)"
        "trace (quantize_fallback env st1) =
           trace st1 @ [Console Warn WeldUnavailable, Transform ?q (Some e2),
                        Console Warn (StageFailed ''Pre-quantization'' e2),
                        Console Log SkipMeshOptimization]"
        "document (quantize_fallback env st1) = d2"
        "optimizationLevel (quantize_fallback env st1) = optimizationLevel st"
      then show ?thesis
        apply -
        apply (rule exI [of _ d2], rule exI [of _ "Some e2"],
               rule exI [of _ "[Console Warn (StageFailed ''Pre-quantization'' e2),
                                Console Log SkipMeshOptimization]"])
        apply simp
        done
    qed
    then obtain d2 r rest where f: "apply_transform env ?h ?q d = (d2, r)"
      "trace (quantize_fallback env st1) =
          trace st1 @ Console Warn WeldUnavailable # Transform ?q r # rest"
      "passes rest = []" "\<forall>tol r'. Transform (Weld tol) r' \<notin> set rest"
      "document (quantize_fallback env st1) = d2"
      "optimizationLevel (quantize_fallback env st1) =
          (if r = None then ''pre-quantized'' else optimizationLevel st)"
      by blast
    have new: "new_events st (stage_weld env st) =
        evs @ Console Warn WeldUnavailable # Transform ?q r # rest"
      using fallback(3,6) f(2) by simp
    have first: "\<forall>tol r. Transform (Weld tol) r \<in> set (new_events st (stage_weld env st)) \<longrightarrow>
      tol = 1 / 10000"
      unfolding new using evs' f(4) by auto
    have second: "\<exists>evs d2 r rest.
         (evs = [ImportWeld (Some e)] \<or>
          evs = [ImportWeld None, Transform (Weld (1 / 10000)) (Some e)]) \<and>
         apply_transform env (trace st @ evs @ [Console Warn WeldUnavailable]) ?q d = (d2, r) \<and>
         new_events st (stage_weld env st) =
           evs @ Console Warn WeldUnavailable # Transform ?q r # rest \<and>
         passes rest = [] \<and>
         document (stage_weld env st) = d2 \<and>
         optimizationLevel (stage_weld env st) =
           (if r = None then ''pre-quantized'' else optimizationLevel st)"
      apply (rule exI [of _ evs], rule exI [of _ d2], rule exI [of _ r], rule exI [of _ rest])
      using evs' f(1,3,5,6) new fallback(6) apply simp
      done
    from first second fallback(1) show ?thesis by simp
  qed
qed

theorem weld_falls_back_to_quantization_witness:
  "weld_attempt weldless_env sample_state
     = (sample_document, Some (Error ''weld is not a function'' ''TypeError'')) \<and>
   passes (new_events sample_state (stage_weld weldless_env sample_state)) =
     [Transform (Draco \<lparr>quantizePosition = Some 12, quantizeNormal = Some 10,
                        quantizeTexcoord = Some 10\<rparr>) None] \<and>
   optimizationLevel (stage_weld weldless_env sample_state) = ''pre-quantized'' \<and>
   weld_attempt quiet_env sample_state = (sample_document, None) \<and>
   Transform (Weld (1 / 10000)) None \<in> set (new_events sample_state (stage_weld quiet_env sample_state)) \<and>
   passes (new_events sample_state (stage_weld quiet_env sample_state))
     = [Transform (Weld (1 / 10000)) None] \<and>
   optimizationLevel (stage_weld quiet_env sample_state) = ''welded''"
proof -
  have h1: "weld_attempt weldless_env sample_state
     = (sample_document, Some (Error ''weld is not a function'' ''TypeError''))"
    by code_simp
  have h3: "passes (new_events sample_state (stage_weld weldless_env sample_state)) =
     [Transform (Draco \<lparr>quantizePosition = Some 12, quantizeNormal = Some 10,
                        quantizeTexcoord = Some 10\<rparr>) None]"
    by code_simp
  have h3': "Transform (Draco \<lparr>quantizePosition = Some 12, quantizeNormal = Some 10,
                        quantizeTexcoord = Some 10\<rparr>) None
               \<in> set (new_events sample_state (stage_weld weldless_env sample_state))"
    by code_simp
  have h4: "weld_attempt quiet_env sample_state = (sample_document, None)"
    by code_simp
  have h5: "Transform (Weld (1 / 10000)) None
              \<in> set (new_events sample_state (stage_weld quiet_env sample_state))"
    by code_simp
  from weld_falls_back_to_quantization [of sample_state weldless_env] h1
  obtain evs d2 r rest where f:
    "new_events sample_state (stage_weld weldless_env sample_state) =
       evs @ Console Warn WeldUnavailable
         # Transform (Draco \<lparr>quantizePosition = Some 12, quantizeNormal = Some 10,
                             quantizeTexcoord = Some 10\<rparr>) r # rest"
    "passes rest = []"
    "evs = [ImportWeld (Some (Error ''weld is not a function'' ''TypeError''))] \<or>
     evs = [ImportWeld None, Transform (Weld (1 / 10000))
              (Some (Error ''weld is not a function'' ''TypeError''))]"
    "optimizationLevel (stage_weld weldless_env sample_state) =
       (if r = None then ''pre-quantized'' else optimizationLevel sample_state)"
    by blast
  have "r = None"
    using h3 f(1,2,3) by auto
  with f(4) have c3: "optimizationLevel (stage_weld weldless_env sample_state) = ''pre-quantized''"
    by simp
  have c6: "passes (new_events sample_state (stage_weld quiet_env sample_state))
              = [Transform (Weld (1 / 10000)) None]"
    and c7: "optimizationLevel (stage_weld quiet_env sample_state) = ''welded''"
    using weld_falls_back_to_quantization [of sample_state quiet_env] h4 by blast+
  from h1 h3 c3 h4 h5 c6 c7 show ?thesis by (intro conjI)
qed

text \<open>
  C6 as stated fails in its clause on the vertex count. The fallback is the library's
  Draco transform, and nothing in the handler keeps it from changing the vertex count:
  here there is no weld, the Draco transform merges equal vertices, and the one primitive
  of the document goes from 36 vertices to 24.
\<close>

theorem quantization_fallback_changes_vertex_count:
  "weld_attempt merging_env cube_state
     = (document cube_state, Some (Error ''weld is not a function'' ''TypeError'')) \<and>
   primitives (document cube_state) = [36] \<and>
   passes (new_events cube_state (stage_weld merging_env cube_state)) =
     [Transform (Draco \<lparr>quantizePosition = Some 12, quantizeNormal = Some 10,
                        quantizeTexcoord = Some 10\<rparr>) None] \<and>
   primitives (document (stage_weld merging_env cube_state)) = [24]"
  by code_simp

subsection \<open>The handler of the inner \<^verbatim>\<open>try\<close> and the final write\<close>

lemma run_transforms_minimal:
  "\<exists>evs. snd (snd (run_transforms env [Dedup, Prune] d tr)) = tr @ evs \<and>
     \<not> list_ex late_pass evs \<and>
     (fst (run_transforms env [Dedup, Prune] d tr) = None \<longrightarrow> failures_logged evs) \<and>
     (\<forall>e. fst (run_transforms env [Dedup, Prune] d tr) = Some e \<longrightarrow>
        failures_logged (evs @ [Console Err (MinimalFailed e)]))"
  by (auto split: prod.splits option.splits)

lemma catch_block_result:
  "\<exists>evs. trace (snd (catch_block env e st)) = trace st @ Console Err (TransformError e) # evs \<and>
     failures_logged evs \<and> \<not> list_ex late_pass evs \<and>
     constants (snd (catch_block env e st)) = constants st \<and>
     document (snd (catch_block env e st)) = document st \<and>
     (fst (catch_block env e st) = None \<longrightarrow>
        optimizationLevel (snd (catch_block env e st)) = ''error'') \<and>
     (\<forall>resp. fst (catch_block env e st) = Some resp \<longrightarrow>
        optimizationLevel (snd (catch_block env e st)) = ''minimal'' \<and>
        resp = minimal_response (snd (catch_block env e st)))"
proof -
  let ?st0 = "(emit (Console Err (TransformError e)) st)\<lparr>optimizationLevel := ''error''\<rparr>"
  have tr0: "trace ?st0 = trace st @ [Console Err (TransformError e)]" by simp
  show ?thesis
  proof (cases "io_read env (files ?st0) (inputPath ?st0)")
    case (Inl e2)
    then show ?thesis
      by (auto simp: catch_block_def Let_def)
  next
    case (Inr document2)
    let ?tr1 = "trace ?st0 @ [IoRead (inputPath ?st0) None]"
    obtain r d2 tr2 where run: "run_transforms env [Dedup, Prune] document2 ?tr1 = (r, d2, tr2)"
      by (cases "run_transforms env [Dedup, Prune] document2 ?tr1") auto
    from run_transforms_minimal [of env document2 ?tr1] run
    obtain evs where evs: "tr2 = ?tr1 @ evs" "\<not> list_ex late_pass evs"
      "r = None \<longrightarrow> failures_logged evs"
      "\<forall>e. r = Some e \<longrightarrow> failures_logged (evs @ [Console Err (MinimalFailed e)])"
      by auto
    show ?thesis
    proof (cases r)
      case (Some e2)
      with Inr run evs show ?thesis
        by (auto simp: catch_block_def Let_def)
    next
      case None
      with Inr run evs show ?thesis
        by (auto simp: catch_block_def Let_def io_write_def minimal_response_def
              intro!: failures_logged_append split: sum.splits)
    qed
  qed
qed

lemma report_frame:
  "optimizationLevel st' = optimizationLevel st \<Longrightarrow> constants st' = constants st \<Longrightarrow>
   report st' n = report st n"
  by (simp add: report_def constants_def)

lemma finish_cases:
  "(\<exists>e. encode env (trace st) (document st) = Inl e \<and>
      fst (finish env st) = Inl e \<and>
      trace (snd (finish env st)) = trace st @ [IoWrite (outputPath st) (Some e)]) \<or>
   (\<exists>b. encode env (trace st) (document st) = Inr b \<and>
      fst (finish env st) = Inr \<lparr>status = 200, body = report st (length b)\<rparr> \<and>
      trace (snd (finish env st)) =
        trace st @ [IoWrite (outputPath st) None,
                    Console Log (Summary (originalSize st) (length b) (optimizationLevel st))] \<and>
      map_of (files (snd (finish env st))) (outputPath st) = Some b)"
  by (cases "encode env (trace st) (document st)")
     (auto simp: finish_def io_write_def emit_def report_def)

subsection \<open>Every failure is logged\<close>

lemma logged_step:
  "failures_logged (trace st) \<Longrightarrow> trace st' = trace st @ evs \<Longrightarrow> failures_logged evs \<Longrightarrow>
   failures_logged (trace st')"
  by (simp add: failures_logged_append)

lemma stage_resample_logged:
  "failures_logged (trace st) \<Longrightarrow> failures_logged (trace (stage_resample env st))"
  using stage_resample_cases [of st env]
  by (auto intro!: failures_logged_append)

lemma stage_texture_logged:
  "failures_logged (trace st) \<Longrightarrow> failures_logged (trace (stage_texture env st))"
  using stage_texture_cases [of st env]
  by (auto intro!: failures_logged_append)

lemma quantize_fallback_after_failure:
  assumes "failures_logged (trace st)" and "trace st1 = trace st @ evs"
    and "evs = [ImportWeld (Some e)] \<or> evs = [ImportWeld None, Transform (Weld weld_options) (Some e)]"
  shows "failures_logged (trace (quantize_fallback env st1))"
proof -
  obtain evs2 where evs2: "trace (quantize_fallback env st1) = trace st1 @ Console Warn WeldUnavailable # evs2"
    "failures_logged evs2"
    using quantize_fallback_cases [of env st1] by auto
  have "failures_logged (evs @ Console Warn WeldUnavailable # evs2)"
    using assms(3) evs2(2) by auto
  with assms(1,2) evs2(1) show ?thesis
    by (simp add: failures_logged_append)
qed

lemma stage_weld_logged:
  "failures_logged (trace st) \<Longrightarrow> failures_logged (trace (stage_weld env st))"
  using stage_weld_cases [of env st] quantize_fallback_after_failure [of st _ _ _ env]
  by (auto intro!: failures_logged_append)

lemma stage_draco_logged:
  "failures_logged (trace st) \<Longrightarrow> failures_logged (trace (stage_draco env st))"
  using stage_draco_cases [of st env]
  by (auto intro!: failures_logged_append)

lemma late_stages_logged:
  "failures_logged (trace st) \<Longrightarrow> failures_logged (trace (late_stages env st))"
  by (simp add: late_stages_def stage_resample_logged stage_texture_logged stage_weld_logged
        stage_draco_logged)

lemma try_catch_logged:
  assumes "failures_logged (trace st)"
  shows "failures_logged (trace (snd (try_catch env st)))"
proof -
  obtain r st2 where early: "early_stages env st = (r, st2)"
    by (cases "early_stages env st")
  show ?thesis
  proof (cases r)
    case None
    with early have "failures_logged (trace st2)"
      using early_stages_cases [of env st] assms
      by (auto intro!: failures_logged_append)
    with early None show ?thesis
      by (simp add: try_catch_pipeline late_stages_logged)
  next
    case (Some e)
    obtain evs where evs: "trace (snd (catch_block env e st2)) =
        trace st2 @ Console Err (TransformError e) # evs" "failures_logged evs"
      using catch_block_result [of env e st2] by blast
    have "\<exists>evs0. trace st2 = trace st @ evs0 \<and>
      failures_logged (evs0 @ Console Err (TransformError e) # evs)"
      using early_stages_cases [of env st] early Some evs(2)
      by (auto simp: failures_logged_append)
    then obtain evs0 where evs0: "trace st2 = trace st @ evs0"
      "failures_logged (evs0 @ Console Err (TransformError e) # evs)"
      by blast
    from assms evs evs0 early Some show ?thesis
      by (simp add: try_catch_thrown failures_logged_append)
  qed
qed

lemma POST_logged: "failures_logged (events (POST env srv req))"
proof (cases "prepare env srv req")
  case (Inl out)
  then show ?thesis
    using prepare_Inl(2) by (simp add: POST_prepared)
next
  case (Inr p)
  obtain srv1 st where p: "p = (srv1, st)" by (cases p)
  have l0: "failures_logged (trace st)"
    using prepare_Inr(3) Inr p by blast
  obtain x st1 where tc: "try_catch env st = (x, st1)"
    by (cases "try_catch env st")
  have l1: "failures_logged (trace st1)"
    using try_catch_logged [OF l0, of env] tc by simp
  show ?thesis
  proof (cases x)
    case (Some resp)
    with Inr p tc l1 show ?thesis by (simp add: POST_def)
  next
    case None
    obtain y st2 where f: "finish env st1 = (y, st2)"
      by (cases "finish env st1")
    from finish_cases [of env st1] f l1
    have "failures_logged (events (answer srv1 (y, st2)))"
      by (auto intro!: failures_logged_append)
    with Inr p tc None f show ?thesis by (simp add: POST_def)
  qed
qed

subsection \<open>What each stage adds to the trace\<close>

lemma size_check_entries [simp]:
  "size_check evs \<Longrightarrow> \<not> list_ex texture_stage_entered evs"
  "size_check evs \<Longrightarrow> \<not> list_ex weld_stage_entered evs"
  "size_check evs \<Longrightarrow> \<not> list_ex draco_stage_entered evs"
  "size_check evs \<Longrightarrow> \<not> list_ex late_pass evs"
  by (auto simp: size_check_def)

lemma options_distinct [simp]:
  "draco_default_options \<noteq> quantize_options"
  "draco_retry_options \<noteq> quantize_options"
  "draco_default_options \<noteq> draco_retry_options"
  "quantize_options \<noteq> draco_default_options"
  "quantize_options \<noteq> draco_retry_options"
  "draco_retry_options \<noteq> draco_default_options"
  by (simp_all add: draco_default_options_def draco_retry_options_def quantize_options_def)

lemma stage_of_compress [simp]:
  "list_all (\<lambda>e. stage_of e = 4) (map (\<lambda>t. CompressTexture t None) ts)"
  by (induction ts) simp_all

lemma stage_resample_events:
  "\<exists>evs. trace (stage_resample env st) = trace st @ evs \<and>
     list_all (\<lambda>e. stage_of e = 3) (passes evs) \<and>
     (list_ex is_resample evs \<longleftrightarrow> animations (document st) \<noteq> [])"
  using stage_resample_cases [of st env]
  by (auto simp: size_check_def)

lemma stage_texture_events:
  "\<exists>evs. trace (stage_texture env st) = trace st @ evs \<and>
     list_all (\<lambda>e. stage_of e = 4) (passes evs) \<and> list_ex texture_stage_entered evs"
  using stage_texture_cases [of st env]
  by auto

lemma quantize_fallback_events:
  "\<exists>evs. trace (quantize_fallback env st) = trace st @ evs \<and>
     list_all (\<lambda>e. stage_of e = 5) (passes evs)"
  using quantize_fallback_cases [of env st]
  by auto

lemma stage_weld_events:
  "\<exists>evs. trace (stage_weld env st) = trace st @ evs \<and>
     list_all (\<lambda>e. stage_of e = 5) (passes evs) \<and> list_ex weld_stage_entered evs"
proof -
  consider
    (ok) evs where "size_check evs"
      "trace (stage_weld env st) =
         trace st @ ImportWeld None # Transform (Weld weld_options) None
           # Console Log (StageDone ''Weld'') # evs"
  | (fallback) e st1 evs where
      "evs = [ImportWeld (Some e)] \<or>
       evs = [ImportWeld None, Transform (Weld weld_options) (Some e)]"
      "trace st1 = trace st @ evs"
      "stage_weld env st = quantize_fallback env st1"
    using stage_weld_cases [of env st] by blast
  then show ?thesis
  proof cases
    case ok
    then show ?thesis by auto
  next
    case fallback
    obtain evs2 where "trace (quantize_fallback env st1) = trace st1 @ evs2"
      "list_all (\<lambda>e. stage_of e = 5) (passes evs2)"
      using quantize_fallback_events by blast
    with fallback show ?thesis
      by (intro exI [of _ "evs @ evs2"]) auto
  qed
qed

lemma stage_draco_events:
  "\<exists>evs. trace (stage_draco env st) = trace st @ evs \<and>
     list_all (\<lambda>e. stage_of e = 6) (passes evs) \<and> list_ex draco_stage_entered evs"
  using stage_draco_cases [of st env]
  by auto

lemma is_resample_stage: "is_resample e \<Longrightarrow> is_pass e \<and> stage_of e = 3"
  by (cases e rule: is_resample.cases) simp_all

lemma no_resample_elsewhere:
  "list_all (\<lambda>e. stage_of e = k) (passes evs) \<Longrightarrow> k \<noteq> 3 \<Longrightarrow> \<not> list_ex is_resample evs"
  by (auto simp: list_all_iff list_ex_iff set_passes dest: is_resample_stage)

text \<open>The four conditional stages together.\<close>

lemma late_stages_events:
  "\<exists>e3 e4 e5 e6. trace (late_stages env st) = trace st @ e3 @ e4 @ e5 @ e6 \<and>
     (list_ex is_resample e3 \<longleftrightarrow> animations (document st) \<noteq> []) \<and>
     \<not> list_ex is_resample (e4 @ e5 @ e6) \<and>
     list_ex texture_stage_entered e4 \<and> list_ex weld_stage_entered e5 \<and>
     list_ex draco_stage_entered e6"
proof -
  let ?s3 = "stage_resample env st"
  let ?s4 = "stage_texture env ?s3"
  let ?s5 = "stage_weld env ?s4"
  obtain e3 where e3: "trace ?s3 = trace st @ e3"
    "list_ex is_resample e3 \<longleftrightarrow> animations (document st) \<noteq> []"
    using stage_resample_events by blast
  obtain e4 where e4: "trace ?s4 = trace ?s3 @ e4" "list_all (\<lambda>e. stage_of e = 4) (passes e4)"
    "list_ex texture_stage_entered e4"
    using stage_texture_events by blast
  obtain e5 where e5: "trace ?s5 = trace ?s4 @ e5" "list_all (\<lambda>e. stage_of e = 5) (passes e5)"
    "list_ex weld_stage_entered e5"
    using stage_weld_events by blast
  obtain e6 where e6: "trace (stage_draco env ?s5) = trace ?s5 @ e6"
    "list_all (\<lambda>e. stage_of e = 6) (passes e6)" "list_ex draco_stage_entered e6"
    using stage_draco_events by blast
  have "\<not> list_ex is_resample e4" "\<not> list_ex is_resample e5" "\<not> list_ex is_resample e6"
    using e4(2) e5(2) e6(2) no_resample_elsewhere by auto
  then have "\<not> list_ex is_resample (e4 @ e5 @ e6)" by simp
  with e3 e4 e5 e6 show ?thesis
    by (intro exI [of _ e3] exI [of _ e4] exI [of _ e5] exI [of _ e6])
       (simp add: late_stages_def)
qed

subsection \<open>The request, from the first pass to the response\<close>

lemma late_pass_is_pass: "late_pass e \<Longrightarrow> is_pass e"
  by (cases e rule: late_pass.cases) simp_all

lemma no_pass_no_late:
  "passes tr = [] \<Longrightarrow> \<not> list_ex late_pass tr"
  "passes tr = [] \<Longrightarrow> \<not> list_ex is_resample tr"
  by (auto simp: passes_def filter_empty_conv list_ex_iff
           dest: late_pass_is_pass is_resample_stage)

lemma early_failed_events:
  "early_stages env st = (Some e, st2) \<Longrightarrow>
   \<exists>evs. trace st2 = trace st @ evs \<and> \<not> list_ex late_pass evs"
  using early_stages_cases [of env st] by auto

lemma early_ok_events:
  "early_stages env st = (None, st2) \<Longrightarrow>
   \<exists>evs. trace st2 = trace st @ evs \<and> Transform Dedup None \<in> set evs \<and>
     Transform Prune None \<in> set evs \<and> \<not> list_ex is_resample evs"
  using early_stages_cases [of env st] by (auto simp: size_check_def)

lemma answer_finish:
  "(\<exists>e. encode env (trace s) (document s) = Inl e \<and>
      response (answer srv1 (finish env s)) = error_response e \<and>
      events (answer srv1 (finish env s)) =
        trace s @ [IoWrite (outputPath s) (Some e), Console Err (SaveError e)]) \<or>
   (\<exists>b. encode env (trace s) (document s) = Inr b \<and>
      response (answer srv1 (finish env s)) = \<lparr>status = 200, body = report s (length b)\<rparr> \<and>
      events (answer srv1 (finish env s)) =
        trace s @ [IoWrite (outputPath s) None,
                   Console Log (Summary (originalSize s) (length b) (optimizationLevel s))] \<and>
      map_of (disk (server_after (answer srv1 (finish env s)))) (outputPath s) = Some b)"
  using finish_cases [of env s]
  by (cases "finish env s") (auto simp: answer_def failed_def)

lemma constants_outputPath: "constants st' = constants st \<Longrightarrow> outputPath st' = outputPath st"
  by (simp add: constants_def)

lemma json_get_report_level [simp]:
  "json_get (report st n) ''optimizationLevel'' = Some (JString (optimizationLevel st))"
  by (simp add: report_def Let_def)

text \<open>
  C10, as the code has it. Dedup or prune has thrown and the minimal fallback has failed
  too (the handler of the inner \<^verbatim>\<open>try\<close> falls through). The handler then encodes the
  first document, as the failed pass left it. When that write succeeds the response has
  status 200 and its \<open>optimizationLevel\<close> is \<^verbatim>\<open>"error"\<close>; when the write throws, the
  outer \<^verbatim>\<open>catch\<close> answers with status 500.
\<close>

theorem fallback_failure_still_answers:
  assumes "prepare env srv req = Inr (srv1, st)"
    and "early_stages env st = (Some e, st2)"
    and "catch_block env e st2 = (None, st3)"
  shows "document st3 = document st2 \<and>
         (\<forall>b. encode env (trace st3) (document st3) = Inr b \<longrightarrow>
            status (response (POST env srv req)) = 200 \<and>
            json_get (body (response (POST env srv req))) ''optimizationLevel''
              = Some (JString ''error'') \<and>
            map_of (disk (server_after (POST env srv req))) (outputPath st) = Some b) \<and>
         (\<forall>e'. encode env (trace st3) (document st3) = Inl e' \<longrightarrow>
            response (POST env srv req) = error_response e' \<and>
            status (response (POST env srv req)) = 500)"
proof -
  have post: "POST env srv req = answer srv1 (finish env st3)"
    using POST_thrown [OF assms(1,2)] assms(3) by simp
  have res: "document st3 = document st2" "optimizationLevel st3 = ''error''"
    "constants st3 = constants st2"
    using catch_block_result [of env e st2] assms(3) by auto
  have "constants st2 = constants st"
    using assms(2) by (rule early_stages_constants)
  with res(3) have out: "outputPath st3 = outputPath st"
    by (simp add: constants_def)
  have ok: "\<forall>b. encode env (trace st3) (document st3) = Inr b \<longrightarrow>
            status (response (POST env srv req)) = 200 \<and>
            json_get (body (response (POST env srv req))) ''optimizationLevel''
              = Some (JString ''error'') \<and>
            map_of (disk (server_after (POST env srv req))) (outputPath st) = Some b"
  proof (intro allI impI)
    fix b assume "encode env (trace st3) (document st3) = Inr b"
    with answer_finish [of env st3 srv1]
    have "response (answer srv1 (finish env st3)) = \<lparr>status = 200, body = report st3 (length b)\<rparr>"
      and "map_of (disk (server_after (answer srv1 (finish env st3)))) (outputPath st3) = Some b"
      by auto
    then show "status (response (POST env srv req)) = 200 \<and>
            json_get (body (response (POST env srv req))) ''optimizationLevel''
              = Some (JString ''error'') \<and>
            map_of (disk (server_after (POST env srv req))) (outputPath st) = Some b"
      by (simp add: post res(2) out)
  qed
  have bad: "\<forall>e'. encode env (trace st3) (document st3) = Inl e' \<longrightarrow>
            response (POST env srv req) = error_response e' \<and>
            status (response (POST env srv req)) = 500"
  proof (intro allI impI)
    fix e' assume "encode env (trace st3) (document st3) = Inl e'"
    with answer_finish [of env st3 srv1]
    have "response (answer srv1 (finish env st3)) = error_response e'"
      by auto
    then show "response (POST env srv req) = error_response e' \<and>
            status (response (POST env srv req)) = 500"
      by (simp add: post)
  qed
  from res(1) ok bad show ?thesis by blast
qed

theorem fallback_failure_still_answers_witness:
  "prepare dedup_fails_env fresh_server sample_request = Inr (prepared_server, prepared_state) \<and>
   early_stages dedup_fails_env prepared_state = (Some boom, dedup_failed_state) \<and>
   fst (catch_block dedup_fails_env boom dedup_failed_state) = None \<and>
   status (response (POST dedup_fails_env fresh_server sample_request)) = 200 \<and>
   json_get (body (response (POST dedup_fails_env fresh_server sample_request)))
     ''optimizationLevel'' = Some (JString ''error'')"
proof -
  let ?E = dedup_fails_env
  let ?st3 = "snd (catch_block ?E boom dedup_failed_state)"
  have h1: "prepare ?E fresh_server sample_request = Inr (prepared_server, prepared_state)"
    by code_simp
  have h2: "early_stages ?E prepared_state = (Some boom, dedup_failed_state)"
    by code_simp
  have h3: "fst (catch_block ?E boom dedup_failed_state) = None"
    by code_simp
  have h3': "catch_block ?E boom dedup_failed_state = (None, ?st3)"
    using h3 by (simp add: prod_eq_iff)
  have h4: "encode ?E (trace ?st3) (document ?st3) = Inr [0x67, 0x6C]"
    by code_simp
  from fallback_failure_still_answers [OF h1 h2 h3'] h4 h1 h2 h3
  show ?thesis by blast
qed

text \<open>
  C10 as stated fails when the final write throws as well. Here dedup throws whenever
  it is called and nothing can be encoded: dedup throws, the fallback fails, the final
  write fails, and the status is 500.
\<close>

theorem fallback_failure_can_be_500:
  "events (POST nothing_works_env fresh_server sample_request) =
     prepared_trace @
     [Transform Dedup (Some boom), Console Err (TransformError boom),
      IoRead ''/tmp/id-a.glb'' None, Transform Dedup (Some boom),
      Console Err (MinimalFailed boom),
      IoWrite ''/tmp/id-optimized.glb'' (Some (Error ''ENOSPC'' ''at write'')),
      Console Err (SaveError (Error ''ENOSPC'' ''at write''))] \<and>
   status (response (POST nothing_works_env fresh_server sample_request)) = 500"
proof -
  let ?E = nothing_works_env
  have h1: "prepare ?E fresh_server sample_request = Inr (prepared_server, prepared_state)"
    by code_simp
  have h2: "early_stages ?E prepared_state = (Some boom, dedup_failed_state)"
    by code_simp
  have h3: "fst (catch_block ?E boom dedup_failed_state) = None"
    by code_simp
  have post: "POST ?E fresh_server sample_request =
    answer prepared_server (finish ?E (snd (catch_block ?E boom dedup_failed_state)))"
    using POST_thrown [OF h1 h2] h3 by simp
  have "events (answer prepared_server (finish ?E (snd (catch_block ?E boom dedup_failed_state)))) =
     prepared_trace @
     [Transform Dedup (Some boom), Console Err (TransformError boom),
      IoRead ''/tmp/id-a.glb'' None, Transform Dedup (Some boom),
      Console Err (MinimalFailed boom),
      IoWrite ''/tmp/id-optimized.glb'' (Some (Error ''ENOSPC'' ''at write'')),
      Console Err (SaveError (Error ''ENOSPC'' ''at write''))]"
    by code_simp
  moreover have "status (response
      (answer prepared_server (finish ?E (snd (catch_block ?E boom dedup_failed_state))))) = 500"
    by code_simp
  ultimately show ?thesis by (simp only: post)
qed

lemma answer_finish_events:
  "\<exists>evs. events (answer srv1 (finish env s)) = trace s @ evs \<and> \<not> list_ex late_pass evs \<and>
     \<not> list_ex is_resample evs"
  using answer_finish [of env s srv1] by auto

lemma answer_finish_status:
  "status (response (answer srv1 (finish env s))) = 200 \<or>
   (\<exists>e. events (answer srv1 (finish env s)) =
      trace s @ [IoWrite (outputPath s) (Some e), Console Err (SaveError e)])"
  using answer_finish [of env s srv1] by auto

lemma minimal_response_status [simp]: "status (minimal_response st) = 200"
  by (simp add: minimal_response_def)

lemma catch_block_rereads:
  "\<exists>evs. trace (snd (catch_block env e st)) =
      trace st @ [Console Err (TransformError e),
                  IoRead (inputPath st)
                    (case io_read env (files st) (inputPath st) of
                       Inl e2 \<Rightarrow> Some e2 | Inr d \<Rightarrow> None)] @ evs"
proof (cases "io_read env (files st) (inputPath st)")
  case (Inl e2)
  then show ?thesis
    by (simp add: catch_block_def Let_def emit_def)
next
  case (Inr d2)
  let ?tr0 = "trace st @ [Console Err (TransformError e), IoRead (inputPath st) None]"
  obtain r d3 tr where run: "run_transforms env [Dedup, Prune] d2 ?tr0 = (r, d3, tr)"
    by (cases "run_transforms env [Dedup, Prune] d2 ?tr0") auto
  obtain evs where evs: "tr = ?tr0 @ evs"
    using run_transforms_minimal [of env d2 ?tr0] run by auto
  show ?thesis
  proof (cases r)
    case None
    with Inr run evs show ?thesis
      by (auto simp: catch_block_def Let_def emit_def io_write_def split: sum.splits)
  next
    case (Some e3)
    with Inr run evs show ?thesis
      by (simp add: catch_block_def Let_def emit_def)
  qed
qed

lemma catch_block_minimal:
  assumes "io_read env (files st) (inputPath st) = Inr d2"
    and "tr0 = trace st @ [Console Err (TransformError e), IoRead (inputPath st) None]"
  shows "\<exists>d3 r1 evs. apply_transform env tr0 Dedup d2 = (d3, r1) \<and>
      trace (snd (catch_block env e st)) = tr0 @ Transform Dedup r1 # evs \<and>
      (r1 = None \<longrightarrow>
         (\<exists>d4 r2 evs'. apply_transform env (tr0 @ [Transform Dedup None]) Prune d3 = (d4, r2) \<and>
            evs = Transform Prune r2 # evs' \<and>
            (r2 = None \<longrightarrow>
               (\<forall>b. encode env (tr0 @ [Transform Dedup None, Transform Prune None]) d4 = Inr b \<longrightarrow>
                  fst (catch_block env e st) = Some (minimal_response (snd (catch_block env e st))) \<and>
                  optimizationLevel (snd (catch_block env e st)) = ''minimal'' \<and>
                  map_of (files (snd (catch_block env e st))) (outputPath st) = Some b))))"
proof -
  obtain d3 r1 where t1: "apply_transform env tr0 Dedup d2 = (d3, r1)"
    by (cases "apply_transform env tr0 Dedup d2") auto
  show ?thesis
  proof (cases r1)
    case (Some e1)
    with t1 assms show ?thesis
      by (simp add: catch_block_def Let_def emit_def)
  next
    case None
    obtain d4 r2 where t2: "apply_transform env (tr0 @ [Transform Dedup None]) Prune d3 = (d4, r2)"
      by (cases "apply_transform env (tr0 @ [Transform Dedup None]) Prune d3") auto
    show ?thesis
    proof (cases r2)
      case (Some e2)
      with t1 t2 None assms show ?thesis
        by (simp add: catch_block_def Let_def emit_def)
    next
      case r2: None
      show ?thesis
      proof (cases "encode env (tr0 @ [Transform Dedup None, Transform Prune None]) d4")
        case (Inl e3)
        with t1 t2 None r2 assms show ?thesis
          by (simp add: catch_block_def Let_def emit_def io_write_def)
      next
        case (Inr b)
        with t1 t2 None r2 assms show ?thesis
          by (simp add: catch_block_def Let_def emit_def io_write_def map_of_update_same)
      qed
    qed
  qed
qed

lemma json_get_minimal_level [simp]:
  "json_get (body (minimal_response st)) ''optimizationLevel'' = Some (JString (optimizationLevel st))"
  by (simp add: minimal_response_def)

lemma run_001_append:
  "run_001 env (xs @ t # ys) d tr =
     (case run_001 env xs d tr of
        (Some e, d1, tr1) \<Rightarrow> (Some e, d1, tr1)
      | (None, d1, tr1) \<Rightarrow>
          (case transform_001 env tr1 t d1 of
             (d2, None) \<Rightarrow> run_001 env ys d2 (tr1 @ [Ran_001 t None])
           | (d2, Some e) \<Rightarrow> (Some e, d2, tr1 @ [Ran_001 t (Some e)])))"
  by (induction xs arbitrary: d tr) (auto split: prod.splits option.splits)

lemma POST_001_pass_failed:
  assumes "prepare_001 env fs req = Inr (p, d, fs1, tr)"
    and "transforms_001 = ts @ t # rest"
    and "run_001 env ts d tr = (None, d1, tr1)"
    and "transform_001 env tr1 t d1 = (d2, Some e)"
  shows "POST_001 env fs req = catch_001 env (Some p) fs1 (tr1 @ [Ran_001 t (Some e)]) e"
proof -
  have "run_001 env transforms_001 d tr = (Some e, d2, tr1 @ [Ran_001 t (Some e)])"
    unfolding assms(2) run_001_append using assms(3,4) by simp
  with assms(1) show ?thesis by (simp add: POST_001_def)
qed

lemma catch_001_result:
  "status_001 (response_001 (catch_001 env (Some p) fs tr e)) = 500 \<and>
   (\<exists>evs. events_001 (catch_001 env (Some p) fs tr e) = tr @ LoggedError_001 e # evs \<and>
      (evs = [Unlinked_001 p None] \<or>
       (\<exists>ce. evs = [Unlinked_001 p (Some ce), LoggedCleanupError_001 ce])))"
  by (cases "unlink_001 env p") (simp_all add: catch_001_def Let_def)




text \<open>
  C4, as the code has it. The test of line 154 reads the document as dedup and prune
  left it, and is reached only when both have returned. Then resample runs exactly when
  that document lists an animation; when it lists none the stage is skipped, with no
  event and the state untouched. Dedup and prune have both run and returned.
\<close>

theorem resample_follows_the_pruned_document:
  assumes "prepare env srv req = Inr (srv1, st)" and "early_stages env st = (None, st2)"
  shows "(list_ex is_resample (events (POST env srv req)) \<longleftrightarrow> animations (document st2) \<noteq> []) \<and>
         (animations (document st2) = [] \<longrightarrow> stage_resample env st2 = st2) \<and>
         Transform Dedup None \<in> set (events (POST env srv req)) \<and>
         Transform Prune None \<in> set (events (POST env srv req))"
proof -
  let ?s = "late_stages env st2"
  have post: "POST env srv req = answer srv1 (finish env ?s)"
    using POST_pipeline [OF assms] by simp
  have fresh: "\<not> list_ex is_resample (trace st)"
    using prepare_Inr(2) [OF assms(1)] by (rule no_pass_no_late)
  obtain evs0 where evs0: "trace st2 = trace st @ evs0" "Transform Dedup None \<in> set evs0"
    "Transform Prune None \<in> set evs0" "\<not> list_ex is_resample evs0"
    using early_ok_events [OF assms(2)] by blast
  obtain e3 e4 e5 e6 where late: "trace ?s = trace st2 @ e3 @ e4 @ e5 @ e6"
    "list_ex is_resample e3 \<longleftrightarrow> animations (document st2) \<noteq> []"
    "\<not> list_ex is_resample (e4 @ e5 @ e6)"
    using late_stages_events [of env st2] by blast
  obtain evs where evs: "events (answer srv1 (finish env ?s)) = trace ?s @ evs"
    "\<not> list_ex is_resample evs"
    using answer_finish_events [of srv1 env ?s] by blast
  have all: "events (POST env srv req) = trace st @ evs0 @ e3 @ (e4 @ e5 @ e6) @ evs"
    using post evs(1) late(1) evs0(1) by simp
  have a: "list_ex is_resample (events (POST env srv req)) \<longleftrightarrow> animations (document st2) \<noteq> []"
    using fresh evs0(4) late(2,3) evs(2) unfolding all by simp
  have b: "animations (document st2) = [] \<longrightarrow> stage_resample env st2 = st2"
    by (simp add: stage_resample_def)
  have c: "Transform Dedup None \<in> set (events (POST env srv req))"
    "Transform Prune None \<in> set (events (POST env srv req))"
    using evs0(2,3) unfolding all by simp_all
  from a b c show ?thesis by simp
qed

theorem resample_follows_the_pruned_document_witness:
  "prepare quiet_env fresh_server sample_request = Inr (prepared_server, prepared_state) \<and>
   early_stages quiet_env prepared_state = (None, pruned_state) \<and>
   animations (document pruned_state) \<noteq> [] \<and>
   list_ex is_resample (events (POST quiet_env fresh_server sample_request)) \<and>
   prepare static_env fresh_server sample_request = Inr (prepared_server, static_prepared_state) \<and>
   early_stages static_env static_prepared_state = (None, static_pruned_state) \<and>
   animations (document static_pruned_state) = [] \<and>
   \<not> list_ex is_resample (events (POST static_env fresh_server sample_request)) \<and>
   stage_resample static_env static_pruned_state = static_pruned_state"
proof -
  have h1: "prepare quiet_env fresh_server sample_request = Inr (prepared_server, prepared_state)"
    by code_simp
  have h2: "early_stages quiet_env prepared_state = (None, pruned_state)"
    by code_simp
  have h3: "animations (document pruned_state) \<noteq> []"
    by code_simp
  have h4: "prepare static_env fresh_server sample_request
              = Inr (prepared_server, static_prepared_state)"
    by code_simp
  have h5: "early_stages static_env static_prepared_state = (None, static_pruned_state)"
    by code_simp
  have h6: "animations (document static_pruned_state) = []"
    by code_simp
  from resample_follows_the_pruned_document [OF h1 h2]
       resample_follows_the_pruned_document [OF h4 h5] h1 h2 h3 h4 h5 h6
  show ?thesis by blast
qed

text \<open>
  C4 as stated fails: the decoded document lists an animation, dedup throws, and
  resample never runs.
\<close>

theorem animation_without_resample:
  "decode dedup_fails_env (content sample_upload) = Inr sample_document \<and>
   animations sample_document = [''walk''] \<and>
   passes (events (POST dedup_fails_env fresh_server sample_request)) =
     [Transform Dedup (Some boom), Transform Dedup (Some boom)] \<and>
   \<not> list_ex is_resample (events (POST dedup_fails_env fresh_server sample_request))"
proof -
  let ?E = dedup_fails_env
  have h1: "prepare ?E fresh_server sample_request = Inr (prepared_server, prepared_state)"
    by code_simp
  have h2: "early_stages ?E prepared_state = (Some boom, dedup_failed_state)"
    by code_simp
  have h3: "fst (catch_block ?E boom dedup_failed_state) = None"
    by code_simp
  have post: "POST ?E fresh_server sample_request =
    answer prepared_server (finish ?E (snd (catch_block ?E boom dedup_failed_state)))"
    using POST_thrown [OF h1 h2] h3 by simp
  have "passes (events
      (answer prepared_server (finish ?E (snd (catch_block ?E boom dedup_failed_state))))) =
     [Transform Dedup (Some boom), Transform Dedup (Some boom)]"
    by code_simp
  moreover have "\<not> list_ex is_resample (events
      (answer prepared_server (finish ?E (snd (catch_block ?E boom dedup_failed_state)))))"
    by code_simp
  moreover have "decode ?E (content sample_upload) = Inr sample_document"
    by code_simp
  moreover have "animations sample_document = [''walk'']"
    by code_simp
  ultimately show ?thesis by (simp add: post)
qed

subsection \<open>Stage 4: textures\<close>

lemma no_compress_failure [simp]:
  "\<not> list_ex is_compress_failure (map (\<lambda>t. CompressTexture t None) ts)"
  "size_check evs \<Longrightarrow> \<not> list_ex is_compress_failure evs"
  by (auto simp: list_ex_iff size_check_def)

text \<open>
  C2, as the code has it. One \<^verbatim>\<open>try\<close> block holds the whole loop, so the first texture
  whose compression throws ends the stage. The textures before it were handed to the
  encoder in list order and are in the document as the encoder returned them; the failed
  texture is in the document as it was, with its original image bytes; the textures after
  it are never handed to the encoder and stay as they were. The failure is logged as a
  warning and the level tag is not advanced. The request goes on: the next event after
  the warning is the import of the weld stage.
\<close>

theorem texture_failure_ends_the_loop:
  assumes "prepare env srv req = Inr (srv1, st0)"
    and "early_stages env st0 = (None, st2)"
    and "st = stage_resample env st2"
    and "list_ex is_compress_failure (new_events st (stage_texture env st))"
  shows "\<exists>pre t post pre' e r evs.
           textures (document st) = pre @ t # post \<and> length pre' = length pre \<and>
           (\<forall>i<length pre.
              compressTexture env
                (trace st @ Console Log (TexturesFound (length (textures (document st))))
                   # map (\<lambda>t. CompressTexture t None) (take i pre))
                (pre ! i) texture_opts = Inr (pre' ! i)) \<and>
           compressTexture env
             (trace st @ Console Log (TexturesFound (length (textures (document st))))
                # map (\<lambda>t. CompressTexture t None) pre)
             t texture_opts = Inl e \<and>
           textures (document (stage_texture env st)) = pre' @ t # post \<and>
           optimizationLevel (stage_texture env st) = optimizationLevel st \<and>
           events (POST env srv req) =
             trace st @ Console Log (TexturesFound (length (textures (document st))))
               # map (\<lambda>t. CompressTexture t None) pre
               @ [CompressTexture t (Some e), Console Warn (StageFailed ''TextureCompress'' e)]
               @ ImportWeld r # evs"
proof -
  let ?s4 = "stage_texture env st"
  let ?s5 = "stage_weld env ?s4"
  let ?s6 = "stage_draco env ?s5"
  let ?found = "Console Log (TexturesFound (length (textures (document st))))"
  have late: "late_stages env st2 = ?s6"
    by (simp add: late_stages_def assms(3))
  have post: "POST env srv req = answer srv1 (finish env ?s6)"
    using POST_pipeline [OF assms(1,2)] late by simp
  obtain r evs5 where e5: "trace ?s5 = trace ?s4 @ ImportWeld r # evs5"
    using stage_weld_starts [of env ?s4] by blast
  obtain evs6 where e6: "trace ?s6 = trace ?s5 @ evs6"
    using stage_draco_events [of env ?s5] by blast
  obtain evs7 where e7: "events (answer srv1 (finish env ?s6)) = trace ?s6 @ evs7"
    using answer_finish_events [of srv1 env ?s6] by blast
  have ev: "events (POST env srv req) = trace ?s4 @ ImportWeld r # (evs5 @ evs6 @ evs7)"
    using post e5 e6 e7 by simp
  consider
    (none) "trace ?s4 = trace st @ [Console Log NoTextures]"
  | (ok) evs where "size_check evs"
      "trace ?s4 =
         trace st @ ?found # map (\<lambda>t. CompressTexture t None) (textures (document st))
           @ Console Log (StageDone ''TextureCompress'') # evs"
  | (failed) pre t post pre' e where "textures (document st) = pre @ t # post"
      "length pre' = length pre"
      "\<forall>i<length pre.
          compressTexture env
            (trace st @ ?found # map (\<lambda>t. CompressTexture t None) (take i pre))
            (pre ! i) texture_opts = Inr (pre' ! i)"
      "compressTexture env
         (trace st @ ?found # map (\<lambda>t. CompressTexture t None) pre)
         t texture_opts = Inl e"
      "trace ?s4 =
         trace st @ ?found # map (\<lambda>t. CompressTexture t None) pre
           @ [CompressTexture t (Some e), Console Warn (StageFailed ''TextureCompress'' e)]"
      "textures (document ?s4) = pre' @ t # post"
      "optimizationLevel ?s4 = optimizationLevel st"
    using stage_texture_cases [of st env] by blast
  then show ?thesis
  proof cases
    case none
    with assms(4) show ?thesis by simp
  next
    case ok
    with assms(4) show ?thesis by simp
  next
    case failed
    have "events (POST env srv req) =
             trace st @ ?found # map (\<lambda>t. CompressTexture t None) pre
               @ [CompressTexture t (Some e), Console Warn (StageFailed ''TextureCompress'' e)]
               @ ImportWeld r # (evs5 @ evs6 @ evs7)"
      using ev failed(5) by simp
    with failed(1,2,3,4,6,7) show ?thesis
      apply -
      apply (rule exI [of _ pre], rule exI [of _ t], rule exI [of _ post],
             rule exI [of _ pre'], rule exI [of _ e], rule exI [of _ r],
             rule exI [of _ "evs5 @ evs6 @ evs7"])
      apply (intro conjI)
            apply assumption+
      done
  qed
qed

theorem texture_failure_ends_the_loop_witness:
  "prepare second_texture_env fresh_server sample_request
     = Inr (prepared_server, prepared_state) \<and>
   early_stages second_texture_env prepared_state = (None, pruned_state) \<and>
   list_ex is_compress_failure
     (new_events (stage_resample second_texture_env pruned_state)
        (stage_texture second_texture_env (stage_resample second_texture_env pruned_state))) \<and>
   textures (document (stage_resample second_texture_env pruned_state)) =
     [\<lparr>mimeType = ''image/png'', image = [1, 2, 3]\<rparr>,
      \<lparr>mimeType = ''image/png'', image = [4, 5, 6]\<rparr>] \<and>
   textures (document
       (stage_texture second_texture_env (stage_resample second_texture_env pruned_state))) =
     [\<lparr>mimeType = ''image/webp'', image = [1, 2, 3]\<rparr>,
      \<lparr>mimeType = ''image/png'', image = [4, 5, 6]\<rparr>] \<and>
   (\<exists>pre t post pre' e r evs.
      textures (document (stage_resample second_texture_env pruned_state)) = pre @ t # post \<and>
      length pre' = length pre \<and>
      textures (document
          (stage_texture second_texture_env (stage_resample second_texture_env pruned_state)))
        = pre' @ t # post \<and>
      events (POST second_texture_env fresh_server sample_request) =
        trace (stage_resample second_texture_env pruned_state)
          @ Console Log (TexturesFound
                (length (textures (document (stage_resample second_texture_env pruned_state)))))
          # map (\<lambda>t. CompressTexture t None) pre
          @ [CompressTexture t (Some e), Console Warn (StageFailed ''TextureCompress'' e)]
          @ ImportWeld r # evs)"
proof -
  have h1: "prepare second_texture_env fresh_server sample_request
              = Inr (prepared_server, prepared_state)"
    by code_simp
  have h2: "early_stages second_texture_env prepared_state = (None, pruned_state)"
    by code_simp
  have h3: "list_ex is_compress_failure
     (new_events (stage_resample second_texture_env pruned_state)
        (stage_texture second_texture_env (stage_resample second_texture_env pruned_state)))"
    by code_simp
  have h4: "textures (document (stage_resample second_texture_env pruned_state)) =
     [\<lparr>mimeType = ''image/png'', image = [1, 2, 3]\<rparr>,
      \<lparr>mimeType = ''image/png'', image = [4, 5, 6]\<rparr>]"
    by code_simp
  have h5: "textures (document
       (stage_texture second_texture_env (stage_resample second_texture_env pruned_state))) =
     [\<lparr>mimeType = ''image/webp'', image = [1, 2, 3]\<rparr>,
      \<lparr>mimeType = ''image/png'', image = [4, 5, 6]\<rparr>]"
    by code_simp
  from texture_failure_ends_the_loop [OF h1 h2 refl h3]
  have "\<exists>pre t post pre' e r evs.
      textures (document (stage_resample second_texture_env pruned_state)) = pre @ t # post \<and>
      length pre' = length pre \<and>
      textures (document
          (stage_texture second_texture_env (stage_resample second_texture_env pruned_state)))
        = pre' @ t # post \<and>
      events (POST second_texture_env fresh_server sample_request) =
        trace (stage_resample second_texture_env pruned_state)
          @ Console Log (TexturesFound
                (length (textures (document (stage_resample second_texture_env pruned_state)))))
          # map (\<lambda>t. CompressTexture t None) pre
          @ [CompressTexture t (Some e), Console Warn (StageFailed ''TextureCompress'' e)]
          @ ImportWeld r # evs"
    by blast
  with h1 h2 h3 h4 h5 show ?thesis by (intro conjI)
qed

text \<open>
  C2 as stated fails. The document has two textures; the encoder throws on the first and
  would have converted the second. The second is never handed to the encoder: the only
  texture event of the request is the failure of the first.
\<close>

theorem one_texture_failure_blocks_the_rest:
  "length (textures sample_document) = 2 \<and>
   compressTexture picky_encoder_env [] (textures sample_document ! 1) texture_opts
     = Inr \<lparr>mimeType = ''image/webp'', image = [4, 5, 6]\<rparr> \<and>
   passes (events (POST picky_encoder_env fresh_server sample_request)) =
     [Transform Dedup None, Transform Prune None, Transform Resample None,
      CompressTexture (textures sample_document ! 0) (Some boom),
      Transform (Weld (1 / 10000)) None,
      Transform (Draco draco_default_options) None]"
proof -
  have h1: "prepare picky_encoder_env fresh_server sample_request
              = Inr (prepared_server, prepared_state)"
    by code_simp
  have h2: "early_stages picky_encoder_env prepared_state = (None, pruned_state)"
    by code_simp
  have "passes (events (answer prepared_server
          (finish picky_encoder_env (late_stages picky_encoder_env pruned_state)))) =
     [Transform Dedup None, Transform Prune None, Transform Resample None,
      CompressTexture (textures sample_document ! 0) (Some boom),
      Transform (Weld (1 / 10000)) None,
      Transform (Draco draco_default_options) None]"
    by code_simp
  moreover have "length (textures sample_document) = 2"
    by code_simp
  moreover have "compressTexture picky_encoder_env [] (textures sample_document ! 1) texture_opts
     = Inr \<lparr>mimeType = ''image/webp'', image = [4, 5, 6]\<rparr>"
    by code_simp
  ultimately show ?thesis
    by (simp only: POST_pipeline [OF h1 h2])
qed

end
